theory Spec2Isabelle
  imports Main "HOL-Library.Word"
begin

section \<open>The winit X11 test module: virtual input devices, virtual outputs, dispatcher\<close>

text \<open>
  The module lives inside the X server. A test driver sends fixed-size messages over a
  socket; \<open>handle_message\<close> (main.c) decodes one message and calls into input.c
  (virtual keyboards, mice and touchscreens) or video.c (two virtual outputs).

  The C code is embedded function by function. Global and static variables are the
  fields of one \<open>state\<close> record that every function takes and returns. A failed
  \<open>assert\<close> and a dereferenced null pointer end the process; they are the values
  of type \<open>abort\<close>, returned on the left of a sum. Calls into the X server are
  appended to a trace, in call order. What the server itself decides (the return value of
  \<open>read\<close> and \<open>write\<close>, the id of a new device, the RandR ids) is a
  parameter.
\<close>

type_synonym u32 = "32 word"

subsection \<open>Process termination\<close>

datatype abort =
    Assert_read            \<comment> \<open>main.c: assert(read(fd, &message, sizeof(message)) > 0)\<close>
  | Assert_write           \<comment> \<open>main.c: assert(write(fd, &reply, sizeof(reply)) > 0)\<close>
  | Invalid_message_type   \<comment> \<open>main.c: assert(0 && "Invalid message type")\<close>
  | Assert_device          \<comment> \<open>input.c, get_device: assert(device)\<close>
  | Assert_device_type     \<comment> \<open>input.c, get_keyboard, get_mouse, get_touch\<close>
  | Assert_invalid_type    \<comment> \<open>input.c, pre_init: assert(0 && "Invalid type")\<close>
  | Assert_new_device      \<comment> \<open>input.c, input_new: assert(!NewInputDeviceRequest(...))\<close>
  | Null_deref             \<comment> \<open>a null pointer is dereferenced\<close>

subsection \<open>input.c: devices and their valuator masks\<close>

datatype Type = TyKeyboard | TyMouse | TyTouch

text \<open>
  Modelled from the spec: the server's \<open>ValuatorMask\<close> is not in the repository. The
  spec calls it a 4-slot accumulator that is cleared before each report. A slot is unset,
  or holds a value (\<open>valuator_mask_set\<close>), or holds an accelerated and an
  unaccelerated value (\<open>valuator_mask_set_unaccelerated\<close>). The server stores
  doubles; every value the module stores is a converted 32-bit integer, kept as an
  \<open>int\<close>.
\<close>

datatype valuator = Unset | Plain int | Unaccelerated int int

type_synonym ValuatorMask = "valuator list"

text \<open>
  Modelled from the spec: the four operations of the server on a mask that the module
  calls. A new mask of \<open>n\<close> valuators has none set; zeroing unsets all; setting writes
  one slot.
\<close>

definition valuator_mask_new :: "nat \<Rightarrow> ValuatorMask" where
  "valuator_mask_new n = replicate n Unset"

definition valuator_mask_zero :: "ValuatorMask \<Rightarrow> ValuatorMask" where
  "valuator_mask_zero m = map (\<lambda>_. Unset) m"

definition valuator_mask_set :: "ValuatorMask \<Rightarrow> nat \<Rightarrow> int \<Rightarrow> ValuatorMask" where
  "valuator_mask_set m i v = (if i < length m then m[i := Plain v] else m)"

definition valuator_mask_set_unaccelerated ::
    "ValuatorMask \<Rightarrow> nat \<Rightarrow> int \<Rightarrow> int \<Rightarrow> ValuatorMask" where
  "valuator_mask_set_unaccelerated m i accel unaccel =
     (if i < length m then m[i := Unaccelerated accel unaccel] else m)"

text \<open>
  \<open>struct Device\<close>. The list links \<open>next\<close> and \<open>prev_next\<close> are the
  order of the list \<open>devices\<close> below. Of the server's \<open>InputInfoPtr device\<close>
  the module reads one thing, \<open>device->dev->id\<close>, which is what the field holds.
  \<open>mask\<close> is a pointer: \<open>None\<close> is NULL.
\<close>

record Device =
  type :: Type
  device :: u32
  mask :: "ValuatorMask option"

subsection \<open>video.c: the two outputs\<close>

text \<open>
  \<open>DisplayModeRec\<close> as far as \<open>pre_init\<close> fills it in, and the two modes it
  configures.
\<close>

record DisplayMode =
  name :: string
  Clock :: int
  HTotal :: int
  VTotal :: int
  HDisplay :: int
  VDisplay :: int

definition mode1 :: DisplayMode where
  "mode1 = \<lparr>name = ''1024x768'', Clock = 60, HTotal = 10, VTotal = 100,
            HDisplay = 1024, VDisplay = 768\<rparr>"

definition mode2 :: DisplayMode where
  "mode2 = \<lparr>name = ''800x600'', Clock = 120, HTotal = 10, VTotal = 100,
            HDisplay = 800, VDisplay = 600\<rparr>"

text \<open>\<open>pre_init\<close>: \<open>pScrn->modes = mode1; xf86ModesAdd(pScrn->modes, mode2)\<close>.\<close>

definition pre_init_modes :: "DisplayMode list" where
  "pre_init_modes = [mode1, mode2]"

text \<open>
  \<open>dummy_output_get_modes\<close> copies the screen's modes one by one, each appended
  to the result by \<open>xf86ModesAdd\<close>.
\<close>

fun dummy_output_get_modes :: "DisplayMode list \<Rightarrow> DisplayMode list \<Rightarrow> DisplayMode list" where
  "dummy_output_get_modes pModes [] = pModes"
| "dummy_output_get_modes pModes (pModeSrc # rest) =
     dummy_output_get_modes (pModes @ [pModeSrc]) rest"

text \<open>
  The RandR objects the module reads in \<open>video_get_info\<close>: \<open>mode->mode.width\<close>
  and \<open>mode->mode.id\<close> of a mode, \<open>randr_crtc->id\<close> of a CRTC,
  \<open>randr_output->id\<close> and \<open>randr_output->modes\<close> of an output.
\<close>

record RRMode =
  width :: int
  id' :: u32

record xf86Output =
  mm_width :: int
  mm_height :: int
  randr_output_id :: u32
  randr_output_modes :: "RRMode list"

text \<open>\<open>DriverOutput\<close>; \<open>crtc\<close> holds \<open>crtc->randr_crtc->id\<close>. \<open>None\<close> is NULL.\<close>

record DriverOutput =
  connected :: bool
  crtc :: "u32 option"
  output' :: "xf86Output option"

subsection \<open>Calls into the X server\<close>

datatype touch_event_type = XI_TouchBegin | XI_TouchUpdate | XI_TouchEnd

datatype server_call =
    NewInputDeviceRequest string u32
      \<comment> \<open>the name's prefix and counter, \<open>asprintf(&name, "%s%u", prefix, id)\<close>\<close>
  | DeleteInputDeviceRequest u32
  | xf86PostKeyboardEvent u32 int bool
      \<comment> \<open>device, key code, is_down\<close>
  | xf86PostButtonEvent u32 int bool
      \<comment> \<open>device, button, is_down (always Relative, no valuators)\<close>
  | xf86PostMotionEventM u32 ValuatorMask
      \<comment> \<open>device, mask (always Relative)\<close>
  | xf86PostTouchEvent u32 u32 touch_event_type "ValuatorMask option"
      \<comment> \<open>device, touch id, type, mask; flags are 0\<close>
  | RRSetChanged
  | xf86RandR12TellChanged
  | RRGetInfo

subsection \<open>The state of the process\<close>

text \<open>
  \<open>devices\<close>, \<open>current_type\<close>: the globals of input.c (\<open>current_type\<close>
  starts as 0, which is no enumerator: \<open>None\<close>). \<open>next_input_id\<close>: the static
  of \<open>input_new\<close>. \<open>TOUCH_ID\<close>: the static of \<open>input_touch_down\<close>.
  \<open>outputs\<close>: the array \<open>driver.outputs\<close> of video.c, of \<open>NUM_OUTPUTS\<close> = 2
  elements: a pair, \<open>outputs[0]\<close> its first and \<open>outputs[1]\<close> its second
  component. \<open>calls\<close>: the calls into the server so far. \<open>written\<close>: the reply buffers handed to \<open>write\<close> so far, each
  as its 32-bit fields in declaration order.
\<close>

record state =
  devices :: "Device list"
  current_type :: "Type option"
  next_input_id :: u32
  TOUCH_ID :: u32
  outputs :: "DriverOutput \<times> DriverOutput"
  calls :: "server_call list"
  written :: "u32 list list"

text \<open>The statics as the C initialisers leave them; \<open>driver\<close> is zero-initialised.\<close>

definition NUM_OUTPUTS :: nat where
  "NUM_OUTPUTS = 2"

definition initial_state :: state where
  "initial_state = \<lparr>devices = [], current_type = None, next_input_id = 1, TOUCH_ID = 1,
     outputs = (\<lparr>connected = False, crtc = None, output' = None\<rparr>,
                \<lparr>connected = False, crtc = None, output' = None\<rparr>),
     calls = [], written = []\<rparr>"

subsection \<open>input.c: creating and destroying devices\<close>

text \<open>
  \<open>pre_init\<close>, the driver's PreInit callback: a zeroed \<open>Device\<close> of the current
  type is appended at the tail of the list. \<open>pInfo\<close> is the server's record of the
  new device.
\<close>

definition pre_init :: "u32 \<Rightarrow> state \<Rightarrow> abort + state" where
  "pre_init pInfo st =
     (case current_type st of
        None \<Rightarrow> Inl Assert_invalid_type
      | Some ty \<Rightarrow>
          Inr (st\<lparr>devices := devices st @ [\<lparr>type = ty, device = pInfo, mask = None\<rparr>]\<rparr>))"

text \<open>
  \<open>init_pointer\<close>, \<open>init_mouse\<close>, \<open>init_touch\<close>: of what they do, the model
  keeps the allocation of the mask, \<open>device->mask = valuator_mask_new(4)\<close>; the rest
  declares capabilities to the server.
\<close>

definition init_pointer :: "Device \<Rightarrow> Device" where
  "init_pointer d = d\<lparr>mask := Some (valuator_mask_new 4)\<rparr>"

definition init_touch :: "Device \<Rightarrow> Device" where
  "init_touch d = init_pointer d"

definition init_mouse :: "Device \<Rightarrow> Device" where
  "init_mouse d = init_pointer d"

datatype control = DEVICE_INIT | DEVICE_ON | DEVICE_OFF | DEVICE_CLOSE

text \<open>
  \<open>device_control\<close> on the \<open>k\<close>-th device of the list. Only \<open>DEVICE_INIT\<close>
  changes anything.
\<close>

definition device_control :: "nat \<Rightarrow> control \<Rightarrow> state \<Rightarrow> state" where
  "device_control k what st =
     (case what of
        DEVICE_INIT \<Rightarrow>
          (if k < length (devices st) then
             (let d = devices st ! k in
              st\<lparr>devices := (devices st)[k :=
                (case type d of
                   TyKeyboard \<Rightarrow> d
                 | TyMouse \<Rightarrow> init_mouse d
                 | TyTouch \<Rightarrow> init_touch d)]\<rparr>)
           else st)
      | _ \<Rightarrow> st)"

text \<open>
  \<open>un_init\<close>, the driver's UnInit callback, on the \<open>k\<close>-th device of the list:
  \<open>*device->prev_next = device->next\<close> unlinks it, then its mask and the record are
  freed.
\<close>

definition un_init :: "nat \<Rightarrow> state \<Rightarrow> state" where
  "un_init k st =
     (if k < length (devices st)
      then st\<lparr>devices := take k (devices st) @ drop (Suc k) (devices st)\<rparr>
      else st)"

text \<open>
  Modelled from the spec: \<open>NewInputDeviceRequest\<close> is the server's. When it
  succeeds it has called the driver's \<open>pre_init\<close> for the new device and, activating
  the device, the driver's \<open>device_control\<close> with \<open>DEVICE_INIT\<close> (spec 4.1 and
  4.2: the setup runs once when the host activates a newly created device). \<open>dev_id\<close>
  is the id the server gives the device, which is the last of the list after
  \<open>pre_init\<close>.
\<close>

definition server_new_input_device :: "u32 \<Rightarrow> state \<Rightarrow> abort + state" where
  "server_new_input_device dev_id st =
     (case pre_init dev_id st of
        Inl e \<Rightarrow> Inl e
      | Inr st' \<Rightarrow> Inr (device_control (length (devices st') - 1) DEVICE_INIT st'))"

text \<open>
  \<open>input_new\<close>. \<open>dev\<close> is the server's answer to \<open>NewInputDeviceRequest\<close>:
  \<open>None\<close> when it fails, else the id of the new device, which \<open>input_new\<close>
  returns.
\<close>

definition input_new :: "string \<Rightarrow> u32 option \<Rightarrow> state \<Rightarrow> abort + (u32 \<times> state)" where
  "input_new prefix dev st =
     (let i = next_input_id st;
          st1 = st\<lparr>next_input_id := next_input_id st + 1,
                   calls := calls st @ [NewInputDeviceRequest prefix i]\<rparr>
      in case dev of
           None \<Rightarrow> Inl Assert_new_device
         | Some dev_id \<Rightarrow>
             (case server_new_input_device dev_id st1 of
                Inl e \<Rightarrow> Inl e
              | Inr st2 \<Rightarrow> Inr (dev_id, st2)))"

definition input_new_keyboard :: "u32 option \<Rightarrow> state \<Rightarrow> abort + (u32 \<times> state)" where
  "input_new_keyboard dev st = input_new ''keyboard'' dev (st\<lparr>current_type := Some TyKeyboard\<rparr>)"

definition input_new_mouse :: "u32 option \<Rightarrow> state \<Rightarrow> abort + (u32 \<times> state)" where
  "input_new_mouse dev st = input_new ''mouse'' dev (st\<lparr>current_type := Some TyMouse\<rparr>)"

definition input_new_touch :: "u32 option \<Rightarrow> state \<Rightarrow> abort + (u32 \<times> state)" where
  "input_new_touch dev st = input_new ''touchscreen'' dev (st\<lparr>current_type := Some TyTouch\<rparr>)"

subsection \<open>input.c: looking a device up\<close>

definition MIN_KEYCODE :: int where
  "MIN_KEYCODE = 8"

text \<open>
  The loop of \<open>get_device\<close>: the first device of the list with the id, and its
  position \<open>k\<close> in the list (the pointer the C code returns).
\<close>

fun get_device_loop :: "u32 \<Rightarrow> nat \<Rightarrow> Device list \<Rightarrow> (nat \<times> Device) option" where
  "get_device_loop i k [] = None"
| "get_device_loop i k (d # ds) =
     (if device d = i then Some (k, d) else get_device_loop i (Suc k) ds)"

definition get_device :: "u32 \<Rightarrow> state \<Rightarrow> abort + (nat \<times> Device)" where
  "get_device i st =
     (case get_device_loop i 0 (devices st) of
        None \<Rightarrow> Inl Assert_device
      | Some kd \<Rightarrow> Inr kd)"

definition get_keyboard :: "u32 \<Rightarrow> state \<Rightarrow> abort + (nat \<times> Device)" where
  "get_keyboard keyboard st =
     (case get_device keyboard st of
        Inl e \<Rightarrow> Inl e
      | Inr (k, d) \<Rightarrow> if type d = TyKeyboard then Inr (k, d) else Inl Assert_device_type)"

definition get_mouse :: "u32 \<Rightarrow> state \<Rightarrow> abort + (nat \<times> Device)" where
  "get_mouse mouse st =
     (case get_device mouse st of
        Inl e \<Rightarrow> Inl e
      | Inr (k, d) \<Rightarrow> if type d = TyMouse then Inr (k, d) else Inl Assert_device_type)"

definition get_touch :: "u32 \<Rightarrow> state \<Rightarrow> abort + (nat \<times> Device)" where
  "get_touch touch st =
     (case get_device touch st of
        Inl e \<Rightarrow> Inl e
      | Inr (k, d) \<Rightarrow> if type d = TyTouch then Inr (k, d) else Inl Assert_device_type)"

text \<open>Writing \<open>device->mask\<close> of the \<open>k\<close>-th device, and one more call into the server.\<close>

definition set_mask :: "nat \<Rightarrow> Device \<Rightarrow> ValuatorMask \<Rightarrow> state \<Rightarrow> state" where
  "set_mask k d m st = st\<lparr>devices := (devices st)[k := d\<lparr>mask := Some m\<rparr>]\<rparr>"

definition call :: "server_call \<Rightarrow> state \<Rightarrow> state" where
  "call c st = st\<lparr>calls := calls st @ [c]\<rparr>"


subsection \<open>input.c: synthesising events\<close>

text \<open>
  The parameters \<open>key\<close> and \<open>button\<close> are \<open>uint8_t\<close>; \<open>key + MIN_KEYCODE\<close>
  is computed in \<open>int\<close>. \<open>dx\<close>, \<open>dy\<close>, \<open>x\<close>, \<open>y\<close> are
  \<open>int32_t\<close>: 32-bit words read by \<open>sint\<close>. \<open>ErrorF\<close> only logs.
\<close>

definition input_key_press :: "u32 \<Rightarrow> 8 word \<Rightarrow> state \<Rightarrow> abort + state" where
  "input_key_press keyboard key st =
     (case get_keyboard keyboard st of
        Inl e \<Rightarrow> Inl e
      | Inr (k, d) \<Rightarrow>
          Inr (call (xf86PostKeyboardEvent (device d) (uint key + MIN_KEYCODE) True) st))"

definition input_key_release :: "u32 \<Rightarrow> 8 word \<Rightarrow> state \<Rightarrow> abort + state" where
  "input_key_release keyboard key st =
     (case get_keyboard keyboard st of
        Inl e \<Rightarrow> Inl e
      | Inr (k, d) \<Rightarrow>
          Inr (call (xf86PostKeyboardEvent (device d) (uint key + MIN_KEYCODE) False) st))"

definition input_button_press :: "u32 \<Rightarrow> 8 word \<Rightarrow> state \<Rightarrow> abort + state" where
  "input_button_press mouse button st =
     (case get_mouse mouse st of
        Inl e \<Rightarrow> Inl e
      | Inr (k, d) \<Rightarrow> Inr (call (xf86PostButtonEvent (device d) (uint button) True) st))"

definition input_button_release :: "u32 \<Rightarrow> 8 word \<Rightarrow> state \<Rightarrow> abort + state" where
  "input_button_release mouse button st =
     (case get_mouse mouse st of
        Inl e \<Rightarrow> Inl e
      | Inr (k, d) \<Rightarrow> Inr (call (xf86PostButtonEvent (device d) (uint button) False) st))"

definition input_mouse_move :: "u32 \<Rightarrow> u32 \<Rightarrow> u32 \<Rightarrow> state \<Rightarrow> abort + state" where
  "input_mouse_move mouse dx dy st =
     (case get_mouse mouse st of
        Inl e \<Rightarrow> Inl e
      | Inr (k, d) \<Rightarrow>
          (case mask d of
             None \<Rightarrow> Inl Null_deref
           | Some m \<Rightarrow>
               (let m0 = valuator_mask_zero m;
                    m1 = valuator_mask_set_unaccelerated m0 0 (sint dx) (sint dx);
                    m2 = valuator_mask_set_unaccelerated m1 1 (sint dy) (sint dy)
                in Inr (call (xf86PostMotionEventM (device d) m2) (set_mask k d m2 st)))))"

text \<open>
  \<open>dx * 120\<close> is a product of \<open>int32_t\<close>. C leaves its overflow undefined; the
  model takes the 32-bit two's complement product.
\<close>

definition input_mouse_scroll :: "u32 \<Rightarrow> u32 \<Rightarrow> u32 \<Rightarrow> state \<Rightarrow> abort + state" where
  "input_mouse_scroll mouse dx dy st =
     (case get_mouse mouse st of
        Inl e \<Rightarrow> Inl e
      | Inr (k, d) \<Rightarrow>
          (case mask d of
             None \<Rightarrow> Inl Null_deref
           | Some m \<Rightarrow>
               (let m0 = valuator_mask_zero m;
                    m1 = (if dx \<noteq> 0 then valuator_mask_set m0 2 (sint (dx * 120)) else m0);
                    m2 = (if dy \<noteq> 0 then valuator_mask_set m1 3 (sint (dy * 120)) else m1)
                in Inr (call (xf86PostMotionEventM (device d) m2) (set_mask k d m2 st)))))"

definition input_touch_down :: "u32 \<Rightarrow> u32 \<Rightarrow> u32 \<Rightarrow> state \<Rightarrow> abort + (u32 \<times> state)" where
  "input_touch_down touch x y st =
     (case get_touch touch st of
        Inl e \<Rightarrow> Inl e
      | Inr (k, d) \<Rightarrow>
          (case mask d of
             None \<Rightarrow> Inl Null_deref
           | Some m \<Rightarrow>
               (let m0 = valuator_mask_zero m;
                    m1 = valuator_mask_set m0 0 (sint x);
                    m2 = valuator_mask_set m1 1 (sint y);
                    touch_id = TOUCH_ID st;
                    st1 = (set_mask k d m2 st)\<lparr>TOUCH_ID := TOUCH_ID st + 1\<rparr>
                in Inr (touch_id,
                        call (xf86PostTouchEvent (device d) touch_id XI_TouchBegin (Some m2)) st1))))"

definition input_touch_up :: "u32 \<Rightarrow> u32 \<Rightarrow> state \<Rightarrow> abort + state" where
  "input_touch_up touch touch_id st =
     (case get_touch touch st of
        Inl e \<Rightarrow> Inl e
      | Inr (k, d) \<Rightarrow> Inr (call (xf86PostTouchEvent (device d) touch_id XI_TouchEnd None) st))"

definition input_touch_move :: "u32 \<Rightarrow> u32 \<Rightarrow> u32 \<Rightarrow> u32 \<Rightarrow> state \<Rightarrow> abort + state" where
  "input_touch_move touch touch_id x y st =
     (case get_touch touch st of
        Inl e \<Rightarrow> Inl e
      | Inr (k, d) \<Rightarrow>
          (case mask d of
             None \<Rightarrow> Inl Null_deref
           | Some m \<Rightarrow>
               (let m0 = valuator_mask_zero m;
                    m1 = valuator_mask_set m0 0 (sint x);
                    m2 = valuator_mask_set m1 1 (sint y)
                in Inr (call (xf86PostTouchEvent (device d) touch_id XI_TouchUpdate (Some m2))
                          (set_mask k d m2 st)))))"

definition input_remove_device :: "u32 \<Rightarrow> state \<Rightarrow> abort + state" where
  "input_remove_device i st =
     (case get_device i st of
        Inl e \<Rightarrow> Inl e
      | Inr (k, d) \<Rightarrow> Inr (call (DeleteInputDeviceRequest (device d)) st))"

subsection \<open>video.c: screen initialisation, the second monitor, the identifiers\<close>

text \<open>
  Modelled from the spec: the RandR objects are the server's. Spec 3 says that the CRTC,
  output and mode identifiers are assigned by the host at screen initialisation and are
  immutable afterwards, and that an output has the two configured modes, told apart by
  their horizontal resolution. The assignment is the parameter \<open>ids\<close>; the RandR mode
  of a \<open>DisplayMode\<close> has its \<open>HDisplay\<close> as width.
\<close>

record randr_ids =
  crtc_id :: "nat \<Rightarrow> u32"
  output_id :: "nat \<Rightarrow> u32"
  mode_id :: "DisplayMode \<Rightarrow> u32"

definition randr_mode :: "randr_ids \<Rightarrow> DisplayMode \<Rightarrow> RRMode" where
  "randr_mode ids m = \<lparr>width = HDisplay m, id' = mode_id ids m\<rparr>"

text \<open>
  One round of the loop of \<open>screen_init\<close>:
  \<open>driver.outputs[i].connected = i == 0\<close>, the CRTC, and the output with its
  physical size of 2000 by 1000 mm.
\<close>

definition screen_init_output :: "randr_ids \<Rightarrow> nat \<Rightarrow> DriverOutput" where
  "screen_init_output ids i =
     \<lparr>connected = (i = 0),
      crtc = Some (crtc_id ids i),
      output' = Some \<lparr>mm_width = 2000, mm_height = 1000,
                      randr_output_id = output_id ids i,
                      randr_output_modes =
                        map (randr_mode ids) (dummy_output_get_modes [] pre_init_modes)\<rparr>\<rparr>"

definition screen_init :: "randr_ids \<Rightarrow> state \<Rightarrow> state" where
  "screen_init ids st = st\<lparr>outputs := (screen_init_output ids 0, screen_init_output ids 1)\<rparr>"

text \<open>
  \<open>driver.outputs[1].connected = connected\<close> converts a \<open>uint32_t\<close> to
  \<open>bool\<close>: true unless 0.
\<close>

definition video_connect_second_monitor :: "u32 \<Rightarrow> state \<Rightarrow> abort + state" where
  "video_connect_second_monitor connected_arg st =
     (let (o0, o1) = outputs st in
      case output' o1 of
        None \<Rightarrow> Inl Null_deref
      | Some out \<Rightarrow>
          Inr (call RRGetInfo (call xf86RandR12TellChanged (call RRSetChanged
            (st\<lparr>outputs :=
               (o0, o1\<lparr>connected := (connected_arg \<noteq> 0),
                       output' := Some (out\<lparr>mm_width := 20, mm_height := 20\<rparr>)\<rparr>)\<rparr>)))))"

text \<open>
  The loop of \<open>video_get_info\<close> over the modes of output 0, on the pair
  \<open>(*small_mode_id, *large_mode_id)\<close>.
\<close>

fun video_get_info_loop :: "RRMode list \<Rightarrow> u32 \<times> u32 \<Rightarrow> u32 \<times> u32" where
  "video_get_info_loop [] sl = sl"
| "video_get_info_loop (mode # rest) (small_mode_id, large_mode_id) =
     (if width mode = 1024
      then video_get_info_loop rest (small_mode_id, id' mode)
      else video_get_info_loop rest (id' mode, large_mode_id))"

text \<open>
  \<open>video_get_info\<close> writes through five pointers. The model takes what the five
  pointees hold before the call and returns what they hold after it, in the order of the
  parameters: \<open>second_crtc\<close>, \<open>first_output\<close>, \<open>second_output\<close>,
  \<open>small_mode_id\<close>, \<open>large_mode_id\<close>.
\<close>

definition video_get_info ::
    "state \<Rightarrow> u32 \<times> u32 \<times> u32 \<times> u32 \<times> u32 \<Rightarrow> abort + (u32 \<times> u32 \<times> u32 \<times> u32 \<times> u32)" where
  "video_get_info st ptrs =
     (let (o0, o1) = outputs st;
          (second_crtc, first_output, second_output, small_mode_id, large_mode_id) = ptrs
      in case crtc o1 of
           None \<Rightarrow> Inl Null_deref
         | Some crtc1 \<Rightarrow>
             (case output' o0 of
                None \<Rightarrow> Inl Null_deref
              | Some out0 \<Rightarrow>
                  (case output' o1 of
                     None \<Rightarrow> Inl Null_deref
                   | Some out1 \<Rightarrow>
                       (let (small, large) =
                              video_get_info_loop (randr_output_modes out0)
                                (small_mode_id, large_mode_id)
                        in Inr (crtc1, randr_output_id out0, randr_output_id out1,
                                small, large)))))"


subsection \<open>main.c: messages and replies\<close>

text \<open>\<open>enum MessageType\<close>, numbered from 0 in declaration order.\<close>

definition MT_NONE :: u32 where
  "MT_NONE = 0"

definition MT_CREATE_KEYBOARD :: u32 where
  "MT_CREATE_KEYBOARD = 1"

definition MT_CREATE_KEYBOARD_REPLY :: u32 where
  "MT_CREATE_KEYBOARD_REPLY = 2"

definition MT_KEY_PRESS :: u32 where
  "MT_KEY_PRESS = 3"

definition MT_KEY_RELEASE :: u32 where
  "MT_KEY_RELEASE = 4"

definition MT_REMOVE_DEVICE :: u32 where
  "MT_REMOVE_DEVICE = 5"

definition MT_ENABLE_SECOND_MONITOR :: u32 where
  "MT_ENABLE_SECOND_MONITOR = 6"

definition MT_ENABLE_SECOND_MONITOR_REPLY :: u32 where
  "MT_ENABLE_SECOND_MONITOR_REPLY = 7"

definition MT_GET_VIDEO_INFO :: u32 where
  "MT_GET_VIDEO_INFO = 8"

definition MT_GET_VIDEO_INFO_REPLY :: u32 where
  "MT_GET_VIDEO_INFO_REPLY = 9"

definition MT_CREATE_MOUSE :: u32 where
  "MT_CREATE_MOUSE = 10"

definition MT_CREATE_MOUSE_REPLY :: u32 where
  "MT_CREATE_MOUSE_REPLY = 11"

definition MT_BUTTON_PRESS :: u32 where
  "MT_BUTTON_PRESS = 12"

definition MT_BUTTON_RELEASE :: u32 where
  "MT_BUTTON_RELEASE = 13"

definition MT_MOUSE_MOVE :: u32 where
  "MT_MOUSE_MOVE = 14"

definition MT_MOUSE_SCROLL :: u32 where
  "MT_MOUSE_SCROLL = 15"

definition MT_CREATE_TOUCH :: u32 where
  "MT_CREATE_TOUCH = 16"

definition MT_CREATE_TOUCH_REPLY :: u32 where
  "MT_CREATE_TOUCH_REPLY = 17"

definition MT_TOUCH_DOWN :: u32 where
  "MT_TOUCH_DOWN = 18"

definition MT_TOUCH_DOWN_REPLY :: u32 where
  "MT_TOUCH_DOWN_REPLY = 19"

definition MT_TOUCH_UP :: u32 where
  "MT_TOUCH_UP = 20"

definition MT_TOUCH_MOVE :: u32 where
  "MT_TOUCH_MOVE = 21"

text \<open>
  \<open>union Message\<close>: 20 bytes, five 32-bit words. Every member of the union is a
  struct of 32-bit fields that starts with \<open>type\<close>, so that a field of a member is
  one of the five words: the functions below are the members' fields.
\<close>

record Message =
  word0 :: u32
  word1 :: u32
  word2 :: u32
  word3 :: u32
  word4 :: u32

definition message_type :: "Message \<Rightarrow> u32" where
  "message_type m = word0 m"

definition key_press_id :: "Message \<Rightarrow> u32" where
  "key_press_id m = word1 m"

definition key_press_key :: "Message \<Rightarrow> u32" where
  "key_press_key m = word2 m"

definition touch_down_id :: "Message \<Rightarrow> u32" where
  "touch_down_id m = word1 m"

definition touch_down_x :: "Message \<Rightarrow> u32" where
  "touch_down_x m = word2 m"

definition touch_down_y :: "Message \<Rightarrow> u32" where
  "touch_down_y m = word3 m"

definition touch_move_id :: "Message \<Rightarrow> u32" where
  "touch_move_id m = word1 m"

definition touch_move_touch_id :: "Message \<Rightarrow> u32" where
  "touch_move_touch_id m = word2 m"

definition touch_move_x :: "Message \<Rightarrow> u32" where
  "touch_move_x m = word3 m"

definition touch_move_y :: "Message \<Rightarrow> u32" where
  "touch_move_y m = word4 m"

definition mouse_move_id :: "Message \<Rightarrow> u32" where
  "mouse_move_id m = word1 m"

definition mouse_move_dx :: "Message \<Rightarrow> u32" where
  "mouse_move_dx m = word2 m"

definition mouse_move_dy :: "Message \<Rightarrow> u32" where
  "mouse_move_dy m = word3 m"

definition remove_device_id :: "Message \<Rightarrow> u32" where
  "remove_device_id m = word1 m"

definition enable_second_monitor_enable :: "Message \<Rightarrow> u32" where
  "enable_second_monitor_enable m = word1 m"

text \<open>
  The reply structs. \<open>write(fd, &reply, sizeof(reply))\<close> sends the fields of the
  struct in the order of their declaration; all are \<open>uint32_t\<close>, so there is no
  padding. \<open>CreateKeyboardReply\<close> (used for the three create replies) and
  \<open>TouchDownReply\<close> are a type and one more word.
\<close>

record GetVideoInfoReply =
  reply_type :: u32
  second_crtc :: u32
  second_output :: u32
  first_output :: u32
  large_mode_id :: u32
  small_mode_id :: u32

definition GetVideoInfoReply_fields :: "GetVideoInfoReply \<Rightarrow> u32 list" where
  "GetVideoInfoReply_fields r =
     [reply_type r, second_crtc r, second_output r, first_output r,
      large_mode_id r, small_mode_id r]"

definition Message_fields :: "Message \<Rightarrow> u32 list" where
  "Message_fields m = [word0 m, word1 m, word2 m, word3 m, word4 m]"

text \<open>
  What the server and the socket do while one message is handled: the values that
  \<open>read\<close> and \<open>write\<close> return (\<open>ssize_t\<close>) and the answer to
  \<open>NewInputDeviceRequest\<close>.
\<close>

record server =
  read_ret :: int
  write_ret :: int
  new_device :: "u32 option"

text \<open>\<open>assert(write(fd, &reply, sizeof(reply)) > 0)\<close>\<close>

definition write_reply :: "server \<Rightarrow> u32 list \<Rightarrow> state \<Rightarrow> abort + state" where
  "write_reply srv reply st =
     (if write_ret srv > 0 then Inr (st\<lparr>written := written st @ [reply]\<rparr>)
      else Inl Assert_write)"

text \<open>
  \<open>handle_message\<close>. \<open>message\<close> is what the buffer holds after \<open>read\<close>
  has returned. The cases are in the order of the \<open>switch\<close>.
\<close>

definition handle_message :: "server \<Rightarrow> Message \<Rightarrow> state \<Rightarrow> abort + state" where
  "handle_message srv message st =
     (if \<not> read_ret srv > 0 then Inl Assert_read
      else if message_type message = MT_CREATE_KEYBOARD then
        (case input_new_keyboard (new_device srv) st of
           Inl e \<Rightarrow> Inl e
         | Inr (i, st') \<Rightarrow> write_reply srv [MT_CREATE_KEYBOARD_REPLY, i] st')
      else if message_type message = MT_CREATE_MOUSE then
        (case input_new_mouse (new_device srv) st of
           Inl e \<Rightarrow> Inl e
         | Inr (i, st') \<Rightarrow> write_reply srv [MT_CREATE_MOUSE_REPLY, i] st')
      else if message_type message = MT_CREATE_TOUCH then
        (case input_new_touch (new_device srv) st of
           Inl e \<Rightarrow> Inl e
         | Inr (i, st') \<Rightarrow> write_reply srv [MT_CREATE_TOUCH_REPLY, i] st')
      else if message_type message = MT_KEY_PRESS then
        input_key_press (key_press_id message) (ucast (key_press_key message)) st
      else if message_type message = MT_KEY_RELEASE then
        input_key_release (key_press_id message) (ucast (key_press_key message)) st
      else if message_type message = MT_BUTTON_PRESS then
        input_button_press (key_press_id message) (ucast (key_press_key message)) st
      else if message_type message = MT_BUTTON_RELEASE then
        input_button_release (key_press_id message) (ucast (key_press_key message)) st
      else if message_type message = MT_MOUSE_MOVE then
        input_mouse_move (mouse_move_id message) (mouse_move_dx message)
          (mouse_move_dy message) st
      else if message_type message = MT_MOUSE_SCROLL then
        input_mouse_scroll (mouse_move_id message) (mouse_move_dx message)
          (mouse_move_dy message) st
      else if message_type message = MT_REMOVE_DEVICE then
        input_remove_device (remove_device_id message) st
      else if message_type message = MT_ENABLE_SECOND_MONITOR then
        (case video_connect_second_monitor (enable_second_monitor_enable message) st of
           Inl e \<Rightarrow> Inl e
         | Inr st' \<Rightarrow>
             write_reply srv
               (Message_fields \<lparr>word0 = MT_ENABLE_SECOND_MONITOR_REPLY, word1 = 0, word2 = 0,
                                word3 = 0, word4 = 0\<rparr>) st')
      else if message_type message = MT_GET_VIDEO_INFO then
        (let reply = \<lparr>reply_type = MT_GET_VIDEO_INFO_REPLY, second_crtc = 0,
                       second_output = 0, first_output = 0, large_mode_id = 0,
                       small_mode_id = 0\<rparr>
         in case video_get_info st (second_crtc reply, first_output reply,
                  second_output reply, small_mode_id reply, large_mode_id reply) of
              Inl e \<Rightarrow> Inl e
            | Inr (a, b, c, d, e) \<Rightarrow>
                write_reply srv
                  (GetVideoInfoReply_fields
                     (reply\<lparr>second_crtc := a, first_output := b, second_output := c,
                            small_mode_id := d, large_mode_id := e\<rparr>)) st)
      else if message_type message = MT_TOUCH_DOWN then
        (case input_touch_down (touch_down_id message) (touch_down_x message)
                (touch_down_y message) st of
           Inl e \<Rightarrow> Inl e
         | Inr (touch_id, st') \<Rightarrow> write_reply srv [MT_TOUCH_DOWN_REPLY, touch_id] st')
      else if message_type message = MT_TOUCH_MOVE then
        input_touch_move (touch_move_id message) (touch_move_touch_id message)
          (touch_move_x message) (touch_move_y message) st
      else if message_type message = MT_TOUCH_UP then
        input_touch_up (touch_move_id message) (touch_move_touch_id message) st
      else Inl Invalid_message_type)"


subsection \<open>Runs of the process\<close>

text \<open>
  The states the process can be in once the server dispatches messages. The server
  initialises the screen before it handles any input, so a run starts with
  \<open>screen_init\<close> on the initial state; then messages are handled one at a time, and
  the server may call the driver's \<open>un_init\<close> at any point between two messages.
  \<open>ids\<close> are the RandR ids the server assigned.
\<close>

inductive reachable :: "randr_ids \<Rightarrow> state \<Rightarrow> bool" for ids :: randr_ids where
  reachable_init: "reachable ids (screen_init ids initial_state)"
| reachable_message:
    "reachable ids st \<Longrightarrow> handle_message srv message st = Inr st' \<Longrightarrow> reachable ids st'"
| reachable_un_init: "reachable ids st \<Longrightarrow> reachable ids (un_init k st)"

text \<open>
  Successive calls of \<open>input_touch_down\<close>, one per element \<open>(touch, x, y)\<close> of the
  list, with the ids they return.
\<close>

fun touch_downs :: "(u32 \<times> u32 \<times> u32) list \<Rightarrow> state \<Rightarrow> abort + (u32 list \<times> state)" where
  "touch_downs [] st = Inr ([], st)"
| "touch_downs ((touch, x, y) # rest) st =
     (case input_touch_down touch x y st of
        Inl e \<Rightarrow> Inl e
      | Inr (touch_id, st1) \<Rightarrow>
          (case touch_downs rest st1 of
             Inl e \<Rightarrow> Inl e
           | Inr (touch_ids, st2) \<Rightarrow> Inr (touch_id # touch_ids, st2)))"

text \<open>
  What \<open>device_control\<close> with \<open>DEVICE_INIT\<close> leaves behind: a keyboard needs no
  mask, a mouse and a touchscreen have one of 4 valuators.
\<close>

definition mask_allocated :: "Device \<Rightarrow> bool" where
  "mask_allocated d =
     (case type d of
        TyKeyboard \<Rightarrow> True
      | _ \<Rightarrow> (case mask d of None \<Rightarrow> False | Some m \<Rightarrow> length m = 4))"

text \<open>\<open>sizeof(Message)\<close> and \<open>sizeof(GetVideoInfoReply)\<close>, in bytes.\<close>

definition sizeof_Message :: int where
  "sizeof_Message = 20"

definition sizeof_GetVideoInfoReply :: int where
  "sizeof_GetVideoInfoReply = 24"

text \<open>The requests that are answered with a reply.\<close>

definition has_reply :: "u32 \<Rightarrow> bool" where
  "has_reply t \<longleftrightarrow>
     t = MT_CREATE_KEYBOARD \<or> t = MT_CREATE_MOUSE \<or> t = MT_CREATE_TOUCH \<or>
     t = MT_ENABLE_SECOND_MONITOR \<or> t = MT_GET_VIDEO_INFO \<or> t = MT_TOUCH_DOWN"

text \<open>The requests that name a device, all in the second word of the message.\<close>

definition names_device :: "u32 \<Rightarrow> bool" where
  "names_device t \<longleftrightarrow>
     t = MT_KEY_PRESS \<or> t = MT_KEY_RELEASE \<or> t = MT_BUTTON_PRESS \<or> t = MT_BUTTON_RELEASE \<or>
     t = MT_MOUSE_MOVE \<or> t = MT_MOUSE_SCROLL \<or> t = MT_REMOVE_DEVICE \<or>
     t = MT_TOUCH_DOWN \<or> t = MT_TOUCH_MOVE \<or> t = MT_TOUCH_UP"

subsection \<open>Concrete servers, messages and states\<close>

definition ids0 :: randr_ids where
  "ids0 = \<lparr>crtc_id = (\<lambda>i. 100 + of_nat i), output_id = (\<lambda>i. 200 + of_nat i),
           mode_id = (\<lambda>m. if HDisplay m = 1024 then 301 else 302)\<rparr>"

definition srv0 :: server where
  "srv0 = \<lparr>read_ret = 20, write_ret = 20, new_device = None\<rparr>"

definition Msg :: "u32 \<Rightarrow> u32 \<Rightarrow> u32 \<Rightarrow> u32 \<Rightarrow> u32 \<Rightarrow> Message" where
  "Msg t a b c d = \<lparr>word0 = t, word1 = a, word2 = b, word3 = c, word4 = d\<rparr>"

text \<open>The state after screen initialisation, and the outputs it has.\<close>

definition st0 :: state where
  "st0 = screen_init ids0 initial_state"

text \<open>
  \<open>st_mouse\<close>: \<open>st0\<close> after CreateMouse, when the server names the device 7.
  \<open>st_touch\<close>: \<open>st_mouse\<close> after CreateTouch, when the server names the device 9.
\<close>

definition st_mouse :: state where
  "st_mouse = st0\<lparr>devices := [\<lparr>type = TyMouse, device = 7, mask = Some [Unset, Unset, Unset, Unset]\<rparr>],
     current_type := Some TyMouse, next_input_id := 2,
     calls := [NewInputDeviceRequest ''mouse'' 1],
     written := [[MT_CREATE_MOUSE_REPLY, 7]]\<rparr>"

definition st_touch :: state where
  "st_touch = st_mouse\<lparr>devices :=
       [\<lparr>type = TyMouse, device = 7, mask = Some [Unset, Unset, Unset, Unset]\<rparr>,
        \<lparr>type = TyTouch, device = 9, mask = Some [Unset, Unset, Unset, Unset]\<rparr>],
     current_type := Some TyTouch, next_input_id := 3,
     calls := [NewInputDeviceRequest ''mouse'' 1, NewInputDeviceRequest ''touchscreen'' 2],
     written := [[MT_CREATE_MOUSE_REPLY, 7], [MT_CREATE_TOUCH_REPLY, 9]]\<rparr>"

text \<open>\<open>st_second\<close>: \<open>st0\<close> after EnableSecondMonitor with \<open>enable\<close> = 2.\<close>

definition st_second :: state where
  "st_second = st0\<lparr>outputs :=
       (screen_init_output ids0 0,
        \<lparr>connected = True, crtc = Some 101,
         output' = Some \<lparr>mm_width = 20, mm_height = 20, randr_output_id = 201,
           randr_output_modes = [\<lparr>width = 1024, id' = 301\<rparr>, \<lparr>width = 800, id' = 302\<rparr>]\<rparr>\<rparr>),
     calls := [RRSetChanged, xf86RandR12TellChanged, RRGetInfo],
     written := [[MT_ENABLE_SECOND_MONITOR_REPLY, 0, 0, 0, 0]]\<rparr>"

text \<open>\<open>st_touch2\<close>: \<open>st_touch\<close> after a second CreateTouch, the new device named 11.\<close>

definition st_touch2 :: state where
  "st_touch2 = st_touch\<lparr>devices :=
       [\<lparr>type = TyMouse, device = 7, mask = Some [Unset, Unset, Unset, Unset]\<rparr>,
        \<lparr>type = TyTouch, device = 9, mask = Some [Unset, Unset, Unset, Unset]\<rparr>,
        \<lparr>type = TyTouch, device = 11, mask = Some [Unset, Unset, Unset, Unset]\<rparr>],
     next_input_id := 4,
     calls := [NewInputDeviceRequest ''mouse'' 1, NewInputDeviceRequest ''touchscreen'' 2,
               NewInputDeviceRequest ''touchscreen'' 3],
     written := [[MT_CREATE_MOUSE_REPLY, 7], [MT_CREATE_TOUCH_REPLY, 9],
                 [MT_CREATE_TOUCH_REPLY, 11]]\<rparr>"

section \<open>Basic facts\<close>

lemmas MessageType_defs =
  MT_NONE_def MT_CREATE_KEYBOARD_def MT_CREATE_KEYBOARD_REPLY_def
  MT_KEY_PRESS_def MT_KEY_RELEASE_def MT_REMOVE_DEVICE_def
  MT_ENABLE_SECOND_MONITOR_def MT_ENABLE_SECOND_MONITOR_REPLY_def MT_GET_VIDEO_INFO_def
  MT_GET_VIDEO_INFO_REPLY_def MT_CREATE_MOUSE_def MT_CREATE_MOUSE_REPLY_def
  MT_BUTTON_PRESS_def MT_BUTTON_RELEASE_def MT_MOUSE_MOVE_def
  MT_MOUSE_SCROLL_def MT_CREATE_TOUCH_def MT_CREATE_TOUCH_REPLY_def
  MT_TOUCH_DOWN_def MT_TOUCH_DOWN_REPLY_def MT_TOUCH_UP_def
  MT_TOUCH_MOVE_def

lemmas Message_defs =
  message_type_def key_press_id_def key_press_key_def
  touch_down_id_def touch_down_x_def touch_down_y_def
  touch_move_id_def touch_move_touch_id_def touch_move_x_def touch_move_y_def
  mouse_move_id_def mouse_move_dx_def mouse_move_dy_def
  remove_device_id_def enable_second_monitor_enable_def

lemma valuator_mask_new_4: "valuator_mask_new 4 = [Unset, Unset, Unset, Unset]"
  by (simp add: valuator_mask_new_def eval_nat_numeral)

lemma outputs_call [simp]: "outputs (call c st) = outputs st"
  and devices_call [simp]: "devices (call c st) = devices st"
  and TOUCH_ID_call [simp]: "TOUCH_ID (call c st) = TOUCH_ID st"
  and written_call [simp]: "written (call c st) = written st"
  and calls_call [simp]: "calls (call c st) = calls st @ [c]"
  by (simp_all add: call_def)

lemma outputs_set_mask [simp]: "outputs (set_mask k d m st) = outputs st"
  and devices_set_mask [simp]: "devices (set_mask k d m st) = (devices st)[k := d\<lparr>mask := Some m\<rparr>]"
  and TOUCH_ID_set_mask [simp]: "TOUCH_ID (set_mask k d m st) = TOUCH_ID st"
  and written_set_mask [simp]: "written (set_mask k d m st) = written st"
  and calls_set_mask [simp]: "calls (set_mask k d m st) = calls st"
  by (simp_all add: set_mask_def)

lemma input_new_frame:
  "input_new prefix dev st = Inr (i, st') \<Longrightarrow>
     outputs st' = outputs st \<and> TOUCH_ID st' = TOUCH_ID st \<and> written st' = written st"
  by (auto simp: input_new_def server_new_input_device_def pre_init_def device_control_def Let_def
           split: option.splits sum.splits if_splits)

lemma input_ops_frame:
  "input_key_press a key st = Inr st' \<Longrightarrow> outputs st' = outputs st \<and> TOUCH_ID st' = TOUCH_ID st \<and> written st' = written st"
  "input_key_release a key st = Inr st' \<Longrightarrow> outputs st' = outputs st \<and> TOUCH_ID st' = TOUCH_ID st \<and> written st' = written st"
  "input_button_press a key st = Inr st' \<Longrightarrow> outputs st' = outputs st \<and> TOUCH_ID st' = TOUCH_ID st \<and> written st' = written st"
  "input_button_release a key st = Inr st' \<Longrightarrow> outputs st' = outputs st \<and> TOUCH_ID st' = TOUCH_ID st \<and> written st' = written st"
  "input_mouse_move a x y st = Inr st' \<Longrightarrow> outputs st' = outputs st \<and> TOUCH_ID st' = TOUCH_ID st \<and> written st' = written st"
  "input_mouse_scroll a x y st = Inr st' \<Longrightarrow> outputs st' = outputs st \<and> TOUCH_ID st' = TOUCH_ID st \<and> written st' = written st"
  "input_touch_up a t st = Inr st' \<Longrightarrow> outputs st' = outputs st \<and> TOUCH_ID st' = TOUCH_ID st \<and> written st' = written st"
  "input_touch_move a t x y st = Inr st' \<Longrightarrow> outputs st' = outputs st \<and> TOUCH_ID st' = TOUCH_ID st \<and> written st' = written st"
  "input_remove_device a st = Inr st' \<Longrightarrow> outputs st' = outputs st \<and> TOUCH_ID st' = TOUCH_ID st \<and> written st' = written st"
  by (auto simp: input_key_press_def input_key_release_def input_button_press_def
        input_button_release_def input_mouse_move_def input_mouse_scroll_def
        input_touch_up_def input_touch_move_def input_remove_device_def Let_def
      split: sum.splits option.splits prod.splits)

lemma input_touch_down_frame:
  "input_touch_down a x y st = Inr (t, st') \<Longrightarrow>
     outputs st' = outputs st \<and> t = TOUCH_ID st \<and> TOUCH_ID st' = TOUCH_ID st + 1 \<and> written st' = written st"
  by (auto simp: input_touch_down_def Let_def split: sum.splits option.splits prod.splits)

lemma handle_message_outputs:
  assumes "handle_message srv m st = Inr st'"
  shows "fst (outputs st') = fst (outputs st) \<and> crtc (snd (outputs st')) = crtc (snd (outputs st))
     \<and> (output' (snd (outputs st')) = None \<longleftrightarrow> output' (snd (outputs st)) = None)
     \<and> map_option randr_output_id (output' (snd (outputs st'))) = map_option randr_output_id (output' (snd (outputs st)))"
  using assms
  by (auto simp: handle_message_def write_reply_def input_new_keyboard_def input_new_mouse_def
        input_new_touch_def video_connect_second_monitor_def
      split: if_splits sum.splits prod.splits option.splits
      dest!: input_new_frame input_ops_frame input_touch_down_frame)

lemma get_device_loop_Some:
  "get_device_loop i j ds = Some (k, d) \<Longrightarrow>
     j \<le> k \<and> k - j < length ds \<and> ds ! (k - j) = d \<and> device d = i"
proof (induction ds arbitrary: j)
  case Nil
  then show ?case by simp
next
  case (Cons a ds)
  show ?case
  proof (cases "device a = i")
    case True
    with Cons.prems show ?thesis by simp
  next
    case False
    with Cons.prems have "get_device_loop i (Suc j) ds = Some (k, d)" by simp
    from Cons.IH [OF this] show ?thesis by (auto simp: Suc_diff_Suc)
  qed
qed

lemma get_device_loop_None: "get_device_loop i j ds = None \<longleftrightarrow> i \<notin> device ` set ds"
  by (induction ds arbitrary: j) auto

lemma get_device_Inr:
  "get_device i st = Inr (k, d) \<Longrightarrow>
     k < length (devices st) \<and> devices st ! k = d \<and> device d = i"
  by (auto simp: get_device_def split: option.splits dest!: get_device_loop_Some)

lemma get_device_absent:
  "i \<notin> device ` set (devices st) \<Longrightarrow> get_device i st = Inl Assert_device"
  by (simp add: get_device_def get_device_loop_None [THEN iffD2])

lemma get_mouse_Inr:
  "get_mouse i st = Inr (k, d) \<Longrightarrow>
     k < length (devices st) \<and> devices st ! k = d \<and> device d = i \<and> type d = TyMouse"
  by (auto simp: get_mouse_def split: sum.splits if_splits dest!: get_device_Inr)

lemma get_touch_Inr:
  "get_touch i st = Inr (k, d) \<Longrightarrow>
     k < length (devices st) \<and> devices st ! k = d \<and> device d = i \<and> type d = TyTouch"
  by (auto simp: get_touch_def split: sum.splits if_splits dest!: get_device_Inr)

lemma mask_allocated_nth:
  assumes "list_all mask_allocated ds" and "k < length ds" and "type (ds ! k) \<noteq> TyKeyboard"
  shows "\<exists>m. mask (ds ! k) = Some m \<and> length m = 4"
proof -
  from assms(1,2) have "mask_allocated (ds ! k)"
    by (simp add: list_all_length)
  with assms(3) show ?thesis
    by (cases "type (ds ! k)"; cases "mask (ds ! k)") (simp_all add: mask_allocated_def)
qed

lemma length_4:
  assumes "length m = 4"
  obtains a b c d where "m = [a, b, c, d]"
proof -
  from assms have "length m = Suc (Suc (Suc (Suc 0)))" by simp
  then show ?thesis using that by (auto simp: length_Suc_conv)
qed

lemma mouse_move_mask:
  assumes "length m = 4"
  shows "valuator_mask_set_unaccelerated
       (valuator_mask_set_unaccelerated (valuator_mask_zero m) 0 a a) 1 b b =
     [Unaccelerated a a, Unaccelerated b b, Unset, Unset]"
proof -
  from assms obtain w x y z where "m = [w, x, y, z]" by (rule length_4)
  then show ?thesis
    by (simp add: valuator_mask_zero_def valuator_mask_set_unaccelerated_def)
qed

lemma mouse_scroll_mask:
  assumes "length m = 4"
  shows "(let m0 = valuator_mask_zero m;
          m1 = (if dx \<noteq> 0 then valuator_mask_set m0 2 a else m0)
      in if dy \<noteq> 0 then valuator_mask_set m1 3 b else m1) =
     [Unset, Unset, if dx = 0 then Unset else Plain a, if dy = 0 then Unset else Plain b]"
proof -
  from assms obtain w x y z where "m = [w, x, y, z]" by (rule length_4)
  then show ?thesis
    by (simp add: valuator_mask_zero_def valuator_mask_set_def eval_nat_numeral)
qed

lemma touch_mask:
  assumes "length m = 4"
  shows "valuator_mask_set (valuator_mask_set (valuator_mask_zero m) 0 a) 1 b =
     [Plain a, Plain b, Unset, Unset]"
proof -
  from assms obtain w x y z where "m = [w, x, y, z]" by (rule length_4)
  then show ?thesis
    by (simp add: valuator_mask_zero_def valuator_mask_set_def)
qed

lemma input_mouse_move_result:
  assumes "get_mouse mouse st = Inr (k, d)" and "mask d = Some m" and "length m = 4"
  shows "input_mouse_move mouse dx dy st =
     Inr (call (xf86PostMotionEventM (device d)
                 [Unaccelerated (sint dx) (sint dx), Unaccelerated (sint dy) (sint dy), Unset, Unset])
            (set_mask k d
               [Unaccelerated (sint dx) (sint dx), Unaccelerated (sint dy) (sint dy), Unset, Unset]
               st))"
  using assms mouse_move_mask [of m "sint dx" "sint dy"]
  by (simp add: input_mouse_move_def Let_def)

lemma input_mouse_scroll_result:
  assumes "get_mouse mouse st = Inr (k, d)" and "mask d = Some m" and "length m = 4"
  shows "input_mouse_scroll mouse dx dy st =
     Inr (call (xf86PostMotionEventM (device d)
                 [Unset, Unset, if dx = 0 then Unset else Plain (sint (dx * 120)),
                  if dy = 0 then Unset else Plain (sint (dy * 120))])
            (set_mask k d
               [Unset, Unset, if dx = 0 then Unset else Plain (sint (dx * 120)),
                if dy = 0 then Unset else Plain (sint (dy * 120))]
               st))"
  using assms mouse_scroll_mask [of m dx "sint (dx * 120)" dy "sint (dy * 120)"]
  by (simp add: input_mouse_scroll_def Let_def)

lemma sint_times_120:
  fixes dx :: u32
  assumes "- (2 ^ 31) \<le> sint dx * 120" and "sint dx * 120 < 2 ^ 31"
  shows "sint (dx * 120) = sint dx * 120"
proof -
  have "sint (dx * 120) = signed_take_bit 31 (sint dx * sint (120 :: u32))"
    by (simp add: sint_word_ariths)
  also have "sint (120 :: u32) = 120" by simp
  finally show ?thesis
    using assms by (simp add: signed_take_bit_int_eq_self)
qed

lemma length_valuator_mask_zero [simp]: "length (valuator_mask_zero m) = length m"
  by (simp add: valuator_mask_zero_def)

lemma length_valuator_mask_set [simp]: "length (valuator_mask_set m i v) = length m"
  by (simp add: valuator_mask_set_def)

lemma length_valuator_mask_set_unaccelerated [simp]:
  "length (valuator_mask_set_unaccelerated m i a b) = length m"
  by (simp add: valuator_mask_set_unaccelerated_def)

lemma mask_allocated_update:
  assumes "list_all mask_allocated ds" and "k < length ds" and "ds ! k = d"
    and "mask d = Some m" and "length m' = length m"
  shows "list_all mask_allocated (ds[k := d\<lparr>mask := Some m'\<rparr>])"
proof -
  from assms(1,2,3) have "mask_allocated d" by (auto simp: list_all_length)
  with assms(4,5) have "mask_allocated (d\<lparr>mask := Some m'\<rparr>)"
    by (cases "type d") (simp_all add: mask_allocated_def)
  with assms(1,2) show ?thesis
    by (simp add: list_all_length nth_list_update)
qed

lemma input_new_masks:
  assumes "input_new prefix dev st = Inr (i, st')" and "list_all mask_allocated (devices st)"
  shows "list_all mask_allocated (devices st')"
proof -
  from assms(1) obtain ty where ty: "current_type st = Some ty"
    and st': "devices st' = devices st @
      [case ty of TyKeyboard \<Rightarrow> \<lparr>type = ty, device = i, mask = None\<rparr>
       | TyMouse \<Rightarrow> init_mouse \<lparr>type = ty, device = i, mask = None\<rparr>
       | TyTouch \<Rightarrow> init_touch \<lparr>type = ty, device = i, mask = None\<rparr>]"
    by (auto simp: input_new_def server_new_input_device_def pre_init_def device_control_def Let_def nth_append
             split: option.splits)
  show ?thesis
    unfolding st' using assms(2)
    by (cases ty)
       (simp_all add: mask_allocated_def init_mouse_def init_touch_def init_pointer_def
          valuator_mask_new_def)
qed

lemma input_new_kinds_masks:
  assumes "list_all mask_allocated (devices st)"
  shows "input_new_keyboard dev st = Inr (i, st') \<Longrightarrow> list_all mask_allocated (devices st')"
    and "input_new_mouse dev st = Inr (i, st') \<Longrightarrow> list_all mask_allocated (devices st')"
    and "input_new_touch dev st = Inr (i, st') \<Longrightarrow> list_all mask_allocated (devices st')"
  using assms
  by (auto simp: input_new_keyboard_def input_new_mouse_def input_new_touch_def
           elim!: input_new_masks)

lemma input_ops_masks:
  assumes "list_all mask_allocated (devices st)"
  shows "input_key_press a key st = Inr st' \<Longrightarrow> list_all mask_allocated (devices st')"
    and "input_key_release a key st = Inr st' \<Longrightarrow> list_all mask_allocated (devices st')"
    and "input_button_press a key st = Inr st' \<Longrightarrow> list_all mask_allocated (devices st')"
    and "input_button_release a key st = Inr st' \<Longrightarrow> list_all mask_allocated (devices st')"
    and "input_touch_up a t st = Inr st' \<Longrightarrow> list_all mask_allocated (devices st')"
    and "input_remove_device a st = Inr st' \<Longrightarrow> list_all mask_allocated (devices st')"
    and "input_mouse_move a x y st = Inr st' \<Longrightarrow> list_all mask_allocated (devices st')"
    and "input_mouse_scroll a x y st = Inr st' \<Longrightarrow> list_all mask_allocated (devices st')"
    and "input_touch_move a t x y st = Inr st' \<Longrightarrow> list_all mask_allocated (devices st')"
    and "input_touch_down a x y st = Inr (t, st') \<Longrightarrow> list_all mask_allocated (devices st')"
  using assms
  by (auto simp: input_key_press_def input_key_release_def input_button_press_def
        input_button_release_def input_mouse_move_def input_mouse_scroll_def
        input_touch_up_def input_touch_move_def input_remove_device_def input_touch_down_def
        Let_def
      split: sum.splits option.splits prod.splits
      dest!: get_mouse_Inr get_touch_Inr intro!: mask_allocated_update)

lemma video_connect_second_monitor_devices:
  "video_connect_second_monitor c st = Inr st' \<Longrightarrow>
     devices st' = devices st \<and> TOUCH_ID st' = TOUCH_ID st \<and> written st' = written st"
  by (auto simp: video_connect_second_monitor_def split: prod.splits option.splits)

lemma handle_message_masks:
  assumes "handle_message srv m st = Inr st'" and "list_all mask_allocated (devices st)"
  shows "list_all mask_allocated (devices st')"
  using assms
  by (auto simp: handle_message_def write_reply_def
      split: if_splits sum.splits prod.splits
      dest: input_new_kinds_masks input_ops_masks video_connect_second_monitor_devices)

lemma un_init_masks:
  "list_all mask_allocated (devices st) \<Longrightarrow> list_all mask_allocated (devices (un_init k st))"
  by (auto simp: un_init_def list_all_iff dest: in_set_takeD in_set_dropD)

lemma reachable_masks: "reachable ids st \<Longrightarrow> list_all mask_allocated (devices st)"
proof (induction rule: reachable.induct)
  case reachable_init
  show ?case by (simp add: screen_init_def initial_state_def)
next
  case (reachable_message st srv message st')
  then show ?case by (blast intro: handle_message_masks)
next
  case (reachable_un_init st k)
  then show ?case by (simp add: un_init_masks)
qed

lemma reachable_outputs:
  "reachable ids st \<Longrightarrow>
     fst (outputs st) = screen_init_output ids 0 \<and>
     crtc (snd (outputs st)) = Some (crtc_id ids 1) \<and>
     map_option randr_output_id (output' (snd (outputs st))) = Some (output_id ids 1)"
proof (induction rule: reachable.induct)
  case reachable_init
  show ?case by (simp add: screen_init_def initial_state_def screen_init_output_def)
next
  case (reachable_message st srv message st')
  from handle_message_outputs [OF reachable_message.hyps(2)] reachable_message.IH
  show ?case by simp
next
  case (reachable_un_init st k)
  then show ?case by (simp add: un_init_def)
qed

section \<open>The concrete states are reachable\<close>

lemma reachable_st0: "reachable ids0 st0"
  unfolding st0_def by (rule reachable_init)

lemma create_mouse_st0:
  "handle_message (srv0\<lparr>new_device := Some 7\<rparr>) (Msg MT_CREATE_MOUSE 0 0 0 0) st0 = Inr st_mouse"
  by (simp add: handle_message_def srv0_def Msg_def Message_defs MessageType_defs st0_def
        st_mouse_def screen_init_def initial_state_def input_new_mouse_def input_new_def server_new_input_device_def
        pre_init_def device_control_def init_mouse_def init_pointer_def valuator_mask_new_4
        write_reply_def)

lemma create_touch_st_mouse:
  "handle_message (srv0\<lparr>new_device := Some 9\<rparr>) (Msg MT_CREATE_TOUCH 0 0 0 0) st_mouse = Inr st_touch"
  by (simp add: handle_message_def srv0_def Msg_def Message_defs MessageType_defs st0_def
        st_mouse_def st_touch_def screen_init_def initial_state_def input_new_touch_def
        input_new_def server_new_input_device_def pre_init_def device_control_def init_touch_def init_pointer_def
        valuator_mask_new_4 write_reply_def)

lemma reachable_st_mouse: "reachable ids0 st_mouse"
  using reachable_st0 create_mouse_st0 by (rule reachable_message)

lemma reachable_st_touch: "reachable ids0 st_touch"
  using reachable_st_mouse create_touch_st_mouse by (rule reachable_message)

lemma get_mouse_st_mouse:
  "get_mouse 7 st_mouse = Inr (0, \<lparr>type = TyMouse, device = 7, mask = Some [Unset, Unset, Unset, Unset]\<rparr>)"
  by (simp add: get_mouse_def get_device_def st_mouse_def)

section \<open>Mouse motion and scrolling\<close>

lemma reachable_mouse_mask:
  assumes "reachable ids st" and "get_mouse mouse st = Inr (k, d)"
  shows "\<exists>m. mask d = Some m \<and> length m = 4"
proof -
  from get_mouse_Inr [OF assms(2)]
  have "k < length (devices st)" and "devices st ! k = d" and "type d = TyMouse"
    by simp_all
  with mask_allocated_nth [OF reachable_masks [OF assms(1)], of k] show ?thesis
    by simp
qed

text \<open>
  Claim C8. In every reachable state and for every mouse device and all deltas,
  \<open>input_mouse_move\<close> returns normally; it leaves the device's mask with slots 0 and 1
  set to the unaccelerated pairs \<open>(dx, dx)\<close> and \<open>(dy, dy)\<close> and slots 2 and 3
  unset, whatever the mask held before; and it posts exactly one motion event, which
  carries that mask.
\<close>

theorem mouse_move_unaccelerated:
  assumes "reachable ids st" and "get_mouse mouse st = Inr (k, d)"
  shows "\<exists>st'. input_mouse_move mouse dx dy st = Inr st' \<and>
           devices st' = (devices st)[k := d\<lparr>mask :=
             Some [Unaccelerated (sint dx) (sint dx), Unaccelerated (sint dy) (sint dy),
                   Unset, Unset]\<rparr>] \<and>
           calls st' = calls st @ [xf86PostMotionEventM (device d)
             [Unaccelerated (sint dx) (sint dx), Unaccelerated (sint dy) (sint dy),
              Unset, Unset]]"
proof -
  from reachable_mouse_mask [OF assms] obtain m where "mask d = Some m" and "length m = 4"
    by blast
  from input_mouse_move_result [OF assms(2) this] show ?thesis
    by simp
qed

theorem mouse_move_unaccelerated_witness:
  "reachable ids0 st_mouse \<and>
   get_mouse 7 st_mouse =
     Inr (0, \<lparr>type = TyMouse, device = 7, mask = Some [Unset, Unset, Unset, Unset]\<rparr>) \<and>
   (\<exists>st'. input_mouse_move 7 (- 3) 7 st_mouse = Inr st' \<and>
      devices st' = [\<lparr>type = TyMouse, device = 7, mask =
         Some [Unaccelerated (- 3) (- 3), Unaccelerated 7 7, Unset, Unset]\<rparr>] \<and>
      calls st' = [NewInputDeviceRequest ''mouse'' 1,
         xf86PostMotionEventM 7 [Unaccelerated (- 3) (- 3), Unaccelerated 7 7, Unset, Unset]])"
  using mouse_move_unaccelerated [OF reachable_st_mouse get_mouse_st_mouse, of "- 3" 7]
    reachable_st_mouse get_mouse_st_mouse
  by (simp add: st_mouse_def)

text \<open>
  Claim C5, as amended. In every reachable state and for every mouse device and all
  deltas, \<open>input_mouse_scroll\<close> returns normally; whatever the mask held before, slots
  0 and 1 end unset, slot 2 is set exactly when \<open>dx\<close> is not 0 and slot 3 exactly when
  \<open>dy\<close> is not 0; and exactly one motion event is posted, with that mask. A slot that is
  set holds the 32-bit two's complement product of its delta and 120, which is the product
  of the integers whenever that lies between \<open>- 2 ^ 31\<close> and \<open>2 ^ 31 - 1\<close>. The
  witness is MouseScroll(0, 5): slot 3 holds 600 and slot 2 is unset.

  The counterexample is the claim's \<open>dx * 120\<close> for all deltas: with \<open>dx\<close> =
  17895698 slot 2 holds -2147483536, not 2147483760, and with \<open>dx\<close> = \<open>- 2 ^ 31\<close>,
  which is not 0, slot 2 holds 0.
\<close>

theorem mouse_scroll_slots:
  assumes "reachable ids st" and "get_mouse mouse st = Inr (k, d)"
  shows "(\<exists>st'. input_mouse_scroll mouse dx dy st = Inr st' \<and>
           devices st' = (devices st)[k := d\<lparr>mask :=
             Some [Unset, Unset, if dx = 0 then Unset else Plain (sint (dx * 120)),
                   if dy = 0 then Unset else Plain (sint (dy * 120))]\<rparr>] \<and>
           calls st' = calls st @ [xf86PostMotionEventM (device d)
             [Unset, Unset, if dx = 0 then Unset else Plain (sint (dx * 120)),
              if dy = 0 then Unset else Plain (sint (dy * 120))]]) \<and>
         (- (2 ^ 31) \<le> sint dx * 120 \<and> sint dx * 120 < 2 ^ 31 \<longrightarrow>
            sint (dx * 120) = sint dx * 120) \<and>
         (- (2 ^ 31) \<le> sint dy * 120 \<and> sint dy * 120 < 2 ^ 31 \<longrightarrow>
            sint (dy * 120) = sint dy * 120)"
proof -
  from reachable_mouse_mask [OF assms] obtain m where "mask d = Some m" and "length m = 4"
    by blast
  from input_mouse_scroll_result [OF assms(2) this, of dx dy]
  have "\<exists>st'. input_mouse_scroll mouse dx dy st = Inr st' \<and>
           devices st' = (devices st)[k := d\<lparr>mask :=
             Some [Unset, Unset, if dx = 0 then Unset else Plain (sint (dx * 120)),
                   if dy = 0 then Unset else Plain (sint (dy * 120))]\<rparr>] \<and>
           calls st' = calls st @ [xf86PostMotionEventM (device d)
             [Unset, Unset, if dx = 0 then Unset else Plain (sint (dx * 120)),
              if dy = 0 then Unset else Plain (sint (dy * 120))]]"
    by simp
  then show ?thesis
    using sint_times_120 [of dx] sint_times_120 [of dy] by blast
qed

theorem mouse_scroll_slots_witness:
  "reachable ids0 st_mouse \<and>
   get_mouse 7 st_mouse =
     Inr (0, \<lparr>type = TyMouse, device = 7, mask = Some [Unset, Unset, Unset, Unset]\<rparr>) \<and>
   (\<exists>st'. input_mouse_scroll 7 0 5 st_mouse = Inr st' \<and>
      devices st' = [\<lparr>type = TyMouse, device = 7, mask =
         Some [Unset, Unset, Unset, Plain 600]\<rparr>] \<and>
      calls st' = [NewInputDeviceRequest ''mouse'' 1,
         xf86PostMotionEventM 7 [Unset, Unset, Unset, Plain 600]])"
  using mouse_scroll_slots [OF reachable_st_mouse get_mouse_st_mouse, of 0 5]
    reachable_st_mouse get_mouse_st_mouse
  by (simp add: st_mouse_def)

theorem mouse_scroll_overflow_counterexample:
  "sint (17895698 :: u32) = 17895698 \<and>
   input_mouse_scroll 7 17895698 0 st_mouse =
     Inr (st_mouse\<lparr>devices := [\<lparr>type = TyMouse, device = 7, mask =
            Some [Unset, Unset, Plain (- 2147483536), Unset]\<rparr>],
          calls := [NewInputDeviceRequest ''mouse'' 1,
            xf86PostMotionEventM 7 [Unset, Unset, Plain (- 2147483536), Unset]]\<rparr>) \<and>
   (- 2147483536 :: int) \<noteq> 17895698 * 120 \<and>
   sint (2147483648 :: u32) = - 2147483648 \<and>
   input_mouse_scroll 7 2147483648 0 st_mouse =
     Inr (st_mouse\<lparr>devices := [\<lparr>type = TyMouse, device = 7, mask =
            Some [Unset, Unset, Plain 0, Unset]\<rparr>],
          calls := [NewInputDeviceRequest ''mouse'' 1,
            xf86PostMotionEventM 7 [Unset, Unset, Plain 0, Unset]]\<rparr>)"
  using input_mouse_scroll_result [OF get_mouse_st_mouse, of "[Unset, Unset, Unset, Unset]"
      17895698 0]
    input_mouse_scroll_result [OF get_mouse_st_mouse, of "[Unset, Unset, Unset, Unset]"
      2147483648 0]
  by (simp add: st_mouse_def call_def set_mask_def)

text \<open>
  Claim C10. A MouseScroll message with both deltas 0, for a mouse device of a reachable
  state, is handled without a failure, posts exactly one motion event, whose mask has no
  valuator set, and writes no reply.
\<close>

theorem mouse_scroll_zero_event:
  assumes "reachable ids st" and "get_mouse (mouse_move_id message) st = Inr (k, d)"
    and "read_ret srv > 0" and "message_type message = MT_MOUSE_SCROLL"
    and "mouse_move_dx message = 0" and "mouse_move_dy message = 0"
  shows "\<exists>st'. handle_message srv message st = Inr st' \<and>
           calls st' = calls st @ [xf86PostMotionEventM (device d) [Unset, Unset, Unset, Unset]] \<and>
           written st' = written st"
proof -
  from reachable_mouse_mask [OF assms(1,2)] obtain m where "mask d = Some m" and "length m = 4"
    by blast
  from input_mouse_scroll_result [OF assms(2) this, of 0 0]
  have "input_mouse_scroll (mouse_move_id message) 0 0 st =
     Inr (call (xf86PostMotionEventM (device d) [Unset, Unset, Unset, Unset])
            (set_mask k d [Unset, Unset, Unset, Unset] st))"
    by simp
  with assms(3-6) show ?thesis
    by (simp add: handle_message_def MessageType_defs)
qed

theorem mouse_scroll_zero_event_witness:
  "reachable ids0 st_mouse \<and>
   (\<exists>st'. handle_message srv0 (Msg MT_MOUSE_SCROLL 7 0 0 0) st_mouse = Inr st' \<and>
      calls st' = [NewInputDeviceRequest ''mouse'' 1,
         xf86PostMotionEventM 7 [Unset, Unset, Unset, Unset]] \<and>
      written st' = [[MT_CREATE_MOUSE_REPLY, 7]])"
  using mouse_scroll_zero_event [of ids0 st_mouse "Msg MT_MOUSE_SCROLL 7 0 0 0" 0
      "\<lparr>type = TyMouse, device = 7, mask = Some [Unset, Unset, Unset, Unset]\<rparr>" srv0]
    reachable_st_mouse get_mouse_st_mouse
  by (simp add: st_mouse_def Msg_def Message_defs srv0_def)

section \<open>The outputs and their identifiers\<close>

lemma video_get_info_loop_snoc:
  "video_get_info_loop (ms @ [m]) sl =
     (if width m = 1024 then (fst (video_get_info_loop ms sl), id' m)
      else (id' m, snd (video_get_info_loop ms sl)))"
  by (induction ms sl rule: video_get_info_loop.induct) auto

lemma video_get_info_loop_last:
  "video_get_info_loop ms (s, l) =
     (if filter (\<lambda>m. width m \<noteq> 1024) ms = [] then s
      else id' (last (filter (\<lambda>m. width m \<noteq> 1024) ms)),
      if filter (\<lambda>m. width m = 1024) ms = [] then l
      else id' (last (filter (\<lambda>m. width m = 1024) ms)))"
proof (induction ms rule: rev_induct)
  case Nil
  show ?case by simp
next
  case (snoc m ms)
  show ?case
    by (simp add: video_get_info_loop_snoc snoc.IH)
qed

lemma screen_modes:
  "map (randr_mode ids) (dummy_output_get_modes [] pre_init_modes) =
     [\<lparr>width = 1024, id' = mode_id ids mode1\<rparr>, \<lparr>width = 800, id' = mode_id ids mode2\<rparr>]"
  by (simp add: pre_init_modes_def randr_mode_def mode1_def mode2_def)

lemma reachable_video_get_info:
  assumes "reachable ids st"
  shows "video_get_info st (a, b, c, d, e) =
     Inr (crtc_id ids 1, output_id ids 0, output_id ids 1, mode_id ids mode2, mode_id ids mode1)"
proof -
  from reachable_outputs [OF assms] obtain o0 o1 out1 where
    o: "outputs st = (o0, o1)" and o0: "o0 = screen_init_output ids 0"
    and c1: "crtc o1 = Some (crtc_id ids 1)"
    and out1: "output' o1 = Some out1" "randr_output_id out1 = output_id ids 1"
    by (cases "outputs st") auto
  show ?thesis
    by (simp add: video_get_info_def o o0 c1 out1 screen_init_output_def screen_modes)
qed

lemma get_video_info_reachable:
  assumes "reachable ids st" and "read_ret srv > 0" and "write_ret srv > 0"
    and "message_type message = MT_GET_VIDEO_INFO"
  shows "handle_message srv message st =
     Inr (st\<lparr>written := written st @
       [GetVideoInfoReply_fields
          \<lparr>reply_type = MT_GET_VIDEO_INFO_REPLY, second_crtc = crtc_id ids 1,
           second_output = output_id ids 1, first_output = output_id ids 0,
           large_mode_id = mode_id ids mode1, small_mode_id = mode_id ids mode2\<rparr>]\<rparr>)"
  using assms(2-4) reachable_video_get_info [OF assms(1)]
  by (simp add: handle_message_def write_reply_def MessageType_defs)

text \<open>
  Claim C7. The loop of \<open>video_get_info\<close> reports the last mode of width 1024 as
  \<open>large_mode_id\<close> and the last mode of any other width as \<open>small_mode_id\<close>
  (and leaves a value alone when there is no such mode). In a reachable state the modes of
  output 0 are the two configured ones: \<open>mode1\<close>, 1024 wide, is the large one and
  \<open>mode2\<close>, 800 wide, the small one. A GetVideoInfo request handled twice in a row
  writes the same reply twice.
\<close>

theorem get_video_info_classifies:
  assumes "reachable ids st" and "read_ret srv > 0" and "write_ret srv > 0"
    and "message_type message = MT_GET_VIDEO_INFO"
  shows "width (randr_mode ids mode1) = 1024 \<and> width (randr_mode ids mode2) \<noteq> 1024 \<and>
     (\<exists>reply st1 st2.
        reply = GetVideoInfoReply_fields
          \<lparr>reply_type = MT_GET_VIDEO_INFO_REPLY, second_crtc = crtc_id ids 1,
           second_output = output_id ids 1, first_output = output_id ids 0,
           large_mode_id = id' (randr_mode ids mode1),
           small_mode_id = id' (randr_mode ids mode2)\<rparr> \<and>
        handle_message srv message st = Inr st1 \<and> written st1 = written st @ [reply] \<and>
        handle_message srv message st1 = Inr st2 \<and> written st2 = written st1 @ [reply]) \<and>
     video_get_info_loop ms (s, l) =
       (if filter (\<lambda>m. width m \<noteq> 1024) ms = [] then s
        else id' (last (filter (\<lambda>m. width m \<noteq> 1024) ms)),
        if filter (\<lambda>m. width m = 1024) ms = [] then l
        else id' (last (filter (\<lambda>m. width m = 1024) ms)))"
proof -
  let ?reply = "GetVideoInfoReply_fields
          \<lparr>reply_type = MT_GET_VIDEO_INFO_REPLY, second_crtc = crtc_id ids 1,
           second_output = output_id ids 1, first_output = output_id ids 0,
           large_mode_id = mode_id ids mode1, small_mode_id = mode_id ids mode2\<rparr>"
  let ?st1 = "st\<lparr>written := written st @ [?reply]\<rparr>"
  have 1: "handle_message srv message st = Inr ?st1"
    using assms by (rule get_video_info_reachable)
  then have "reachable ids ?st1"
    using assms(1) by (blast intro: reachable_message)
  then have 2: "handle_message srv message ?st1 =
      Inr (?st1\<lparr>written := written ?st1 @ [?reply]\<rparr>)"
    using assms(2-4) by (rule get_video_info_reachable)
  have 3: "width (randr_mode ids mode1) = 1024 \<and> width (randr_mode ids mode2) \<noteq> 1024"
    by (simp add: randr_mode_def mode1_def mode2_def)
  from 1 2 3 show ?thesis
    by (simp add: randr_mode_def video_get_info_loop_last)
qed

lemma video_get_info_st0:
  "video_get_info st0 (0, 0, 0, 0, 0) = Inr (101, 200, 201, 302, 301)"
  using reachable_video_get_info [OF reachable_st0, of 0 0 0 0 0]
  by (simp add: ids0_def mode1_def mode2_def)

lemma get_video_info_st0:
  "handle_message srv0 (Msg MT_GET_VIDEO_INFO 0 0 0 0) st0 =
     Inr (st0\<lparr>written := [[MT_GET_VIDEO_INFO_REPLY, 101, 201, 200, 301, 302]]\<rparr>)"
  using get_video_info_reachable [OF reachable_st0, of srv0 "Msg MT_GET_VIDEO_INFO 0 0 0 0"]
  by (simp add: srv0_def Msg_def message_type_def GetVideoInfoReply_fields_def ids0_def
        mode1_def mode2_def st0_def screen_init_def initial_state_def)

theorem get_video_info_classifies_witness:
  "reachable ids0 st0 \<and> read_ret srv0 > 0 \<and> write_ret srv0 > 0 \<and>
   (\<exists>st1 st2.
      handle_message srv0 (Msg MT_GET_VIDEO_INFO 0 0 0 0) st0 = Inr st1 \<and>
      written st1 = [[MT_GET_VIDEO_INFO_REPLY, 101, 201, 200, 301, 302]] \<and>
      handle_message srv0 (Msg MT_GET_VIDEO_INFO 0 0 0 0) st1 = Inr st2 \<and>
      written st2 = [[MT_GET_VIDEO_INFO_REPLY, 101, 201, 200, 301, 302],
                     [MT_GET_VIDEO_INFO_REPLY, 101, 201, 200, 301, 302]])"
  using get_video_info_classifies [OF reachable_st0, where srv = srv0
      and message = "Msg MT_GET_VIDEO_INFO 0 0 0 0" and ms = "[]" and s = 0 and l = 0]
    reachable_st0
  by (simp add: srv0_def Msg_def message_type_def GetVideoInfoReply_fields_def ids0_def
        mode1_def mode2_def randr_mode_def st0_def screen_init_def initial_state_def
      cong: conj_cong)

text \<open>
  Claim C1, as amended. Whenever a GetVideoInfo request is handled, one reply is handed to
  \<open>write\<close>: the reply tag followed by the five identifiers in the order in which
  \<open>GetVideoInfoReply\<close> declares its fields, which is \<open>second_crtc\<close>,
  \<open>second_output\<close>, \<open>first_output\<close>, \<open>large_mode_id\<close>,
  \<open>small_mode_id\<close>. The five names are those of the parameters of
  \<open>video_get_info\<close>, whose result is the tuple in parameter order.

  The counterexample is the order of the claim (\<open>second_crtc\<close>,
  \<open>first_output\<close>, \<open>second_output\<close>, \<open>small_mode_id\<close>,
  \<open>large_mode_id\<close>): with the identifiers 101, 200, 201, 302, 301 the reply is
  101, 201, 200, 301, 302.
\<close>

theorem get_video_info_reply_order:
  assumes "handle_message srv message st = Inr st'"
    and "message_type message = MT_GET_VIDEO_INFO"
  shows "\<exists>second_crtc first_output second_output small_mode_id large_mode_id.
     video_get_info st (0, 0, 0, 0, 0) =
       Inr (second_crtc, first_output, second_output, small_mode_id, large_mode_id) \<and>
     written st' = written st @
       [[MT_GET_VIDEO_INFO_REPLY, second_crtc, second_output, first_output,
         large_mode_id, small_mode_id]]"
  using assms
  by (auto simp: handle_message_def write_reply_def MessageType_defs GetVideoInfoReply_fields_def
      split: if_splits sum.splits)

theorem get_video_info_reply_order_witness:
  "handle_message srv0 (Msg MT_GET_VIDEO_INFO 0 0 0 0) st0 =
     Inr (st0\<lparr>written := [[MT_GET_VIDEO_INFO_REPLY, 101, 201, 200, 301, 302]]\<rparr>) \<and>
   video_get_info st0 (0, 0, 0, 0, 0) = Inr (101, 200, 201, 302, 301) \<and>
   written (st0\<lparr>written := [[MT_GET_VIDEO_INFO_REPLY, 101, 201, 200, 301, 302]]\<rparr>) =
     written st0 @ [[MT_GET_VIDEO_INFO_REPLY, 101, 201, 200, 301, 302]]"
  using get_video_info_reply_order [OF get_video_info_st0] video_get_info_st0 get_video_info_st0
  by (simp add: Msg_def message_type_def)

theorem get_video_info_reply_order_counterexample:
  "video_get_info st0 (0, 0, 0, 0, 0) = Inr (101, 200, 201, 302, 301) \<and>
   handle_message srv0 (Msg MT_GET_VIDEO_INFO 0 0 0 0) st0 =
     Inr (st0\<lparr>written := [[MT_GET_VIDEO_INFO_REPLY, 101, 201, 200, 301, 302]]\<rparr>) \<and>
   [MT_GET_VIDEO_INFO_REPLY, 101, 201, 200, 301, 302] \<noteq>
     [MT_GET_VIDEO_INFO_REPLY, 101, 200, 201, 302, 301 :: u32]"
  using video_get_info_st0 get_video_info_st0 by simp

lemma enable_second_monitor_st0:
  "handle_message srv0 (Msg MT_ENABLE_SECOND_MONITOR 2 0 0 0) st0 = Inr st_second"
  by (simp add: handle_message_def srv0_def Msg_def Message_defs MessageType_defs st0_def
        st_second_def screen_init_def initial_state_def video_connect_second_monitor_def
        screen_init_output_def screen_modes ids0_def mode1_def mode2_def call_def
        write_reply_def Message_fields_def)

lemma reachable_st_second: "reachable ids0 st_second"
  using reachable_st0 enable_second_monitor_st0 by (rule reachable_message)

text \<open>
  Claim C6. In every reachable state output 0 is connected: \<open>screen_init\<close> sets the
  flag, and neither a handled message (EnableSecondMonitor included) nor \<open>un_init\<close>
  changes anything of output 0. In the witness the second output has been connected:
  its flag differs from the one after \<open>screen_init\<close>, that of output 0 does not.
\<close>

theorem first_output_always_connected:
  assumes "reachable ids st"
  shows "connected (fst (outputs st)) \<and>
     (\<forall>srv message st'. handle_message srv message st = Inr st' \<longrightarrow>
        fst (outputs st') = fst (outputs st)) \<and>
     (\<forall>k. fst (outputs (un_init k st)) = fst (outputs st))"
proof -
  from reachable_outputs [OF assms] have "connected (fst (outputs st))"
    by (simp add: screen_init_output_def)
  moreover have "\<forall>k. fst (outputs (un_init k st)) = fst (outputs st)"
    by (simp add: un_init_def)
  ultimately show ?thesis
    using handle_message_outputs by blast
qed

theorem first_output_always_connected_witness:
  "reachable ids0 st_second \<and> connected (fst (outputs st_second)) \<and>
   connected (snd (outputs st_second)) \<and> \<not> connected (snd (outputs st0)) \<and>
   fst (outputs st_second) = fst (outputs st0)"
  using first_output_always_connected [OF reachable_st_second] reachable_st_second
  by (simp add: st_second_def st0_def screen_init_def screen_init_output_def)

text \<open>
  Claim C9. In every reachable state an EnableSecondMonitor request with successful
  \<open>read\<close> and \<open>write\<close> is handled without a failure; afterwards output 1 is
  connected exactly when the 32-bit \<open>enable\<close> is not 0, and its physical size is 20
  by 20 mm, whether it was connected or disconnected. The witness has \<open>enable\<close> = 2.
\<close>

theorem enable_second_monitor_effect:
  assumes "reachable ids st" and "read_ret srv > 0" and "write_ret srv > 0"
    and "message_type message = MT_ENABLE_SECOND_MONITOR"
  shows "\<exists>st' out. handle_message srv message st = Inr st' \<and>
     connected (snd (outputs st')) = (enable_second_monitor_enable message \<noteq> 0) \<and>
     output' (snd (outputs st')) = Some out \<and> mm_width out = 20 \<and> mm_height out = 20"
proof -
  from reachable_outputs [OF assms(1)] obtain o0 o1 out1 where
    o: "outputs st = (o0, o1)" and out1: "output' o1 = Some out1"
    by (cases "outputs st") auto
  with assms(2-4) show ?thesis
    by (simp add: handle_message_def MessageType_defs video_connect_second_monitor_def
          write_reply_def)
qed

theorem enable_second_monitor_effect_witness:
  "reachable ids0 st0 \<and>
   (\<exists>st' out. handle_message srv0 (Msg MT_ENABLE_SECOND_MONITOR 2 0 0 0) st0 = Inr st' \<and>
      connected (snd (outputs st')) \<and>
      output' (snd (outputs st')) = Some out \<and> mm_width out = 20 \<and> mm_height out = 20)"
  using enable_second_monitor_effect [OF reachable_st0, of srv0
      "Msg MT_ENABLE_SECOND_MONITOR 2 0 0 0"] reachable_st0
  by (simp add: srv0_def Msg_def Message_defs)

section \<open>The dispatcher\<close>

lemma handle_message_cases [case_names create_keyboard create_mouse create_touch
    key_press key_release button_press button_release mouse_move mouse_scroll remove_device
    enable_second_monitor get_video_info touch_down touch_move touch_up invalid]:
  obtains
    "message_type message = MT_CREATE_KEYBOARD"
    "\<And>srv. 0 < read_ret srv \<Longrightarrow> handle_message srv message st =
       (case input_new_keyboard (new_device srv) st of
          Inl e \<Rightarrow> Inl e
        | Inr (i, st') \<Rightarrow> write_reply srv [MT_CREATE_KEYBOARD_REPLY, i] st')"
  | "message_type message = MT_CREATE_MOUSE"
    "\<And>srv. 0 < read_ret srv \<Longrightarrow> handle_message srv message st =
       (case input_new_mouse (new_device srv) st of
          Inl e \<Rightarrow> Inl e
        | Inr (i, st') \<Rightarrow> write_reply srv [MT_CREATE_MOUSE_REPLY, i] st')"
  | "message_type message = MT_CREATE_TOUCH"
    "\<And>srv. 0 < read_ret srv \<Longrightarrow> handle_message srv message st =
       (case input_new_touch (new_device srv) st of
          Inl e \<Rightarrow> Inl e
        | Inr (i, st') \<Rightarrow> write_reply srv [MT_CREATE_TOUCH_REPLY, i] st')"
  | "message_type message = MT_KEY_PRESS"
    "\<And>srv. 0 < read_ret srv \<Longrightarrow> handle_message srv message st =
       input_key_press (key_press_id message) (ucast (key_press_key message)) st"
  | "message_type message = MT_KEY_RELEASE"
    "\<And>srv. 0 < read_ret srv \<Longrightarrow> handle_message srv message st =
       input_key_release (key_press_id message) (ucast (key_press_key message)) st"
  | "message_type message = MT_BUTTON_PRESS"
    "\<And>srv. 0 < read_ret srv \<Longrightarrow> handle_message srv message st =
       input_button_press (key_press_id message) (ucast (key_press_key message)) st"
  | "message_type message = MT_BUTTON_RELEASE"
    "\<And>srv. 0 < read_ret srv \<Longrightarrow> handle_message srv message st =
       input_button_release (key_press_id message) (ucast (key_press_key message)) st"
  | "message_type message = MT_MOUSE_MOVE"
    "\<And>srv. 0 < read_ret srv \<Longrightarrow> handle_message srv message st =
       input_mouse_move (mouse_move_id message) (mouse_move_dx message)
         (mouse_move_dy message) st"
  | "message_type message = MT_MOUSE_SCROLL"
    "\<And>srv. 0 < read_ret srv \<Longrightarrow> handle_message srv message st =
       input_mouse_scroll (mouse_move_id message) (mouse_move_dx message)
         (mouse_move_dy message) st"
  | "message_type message = MT_REMOVE_DEVICE"
    "\<And>srv. 0 < read_ret srv \<Longrightarrow> handle_message srv message st = input_remove_device (remove_device_id message) st"
  | "message_type message = MT_ENABLE_SECOND_MONITOR"
    "\<And>srv. 0 < read_ret srv \<Longrightarrow> handle_message srv message st =
       (case video_connect_second_monitor (enable_second_monitor_enable message) st of
          Inl e \<Rightarrow> Inl e
        | Inr st' \<Rightarrow> write_reply srv [MT_ENABLE_SECOND_MONITOR_REPLY, 0, 0, 0, 0] st')"
  | "message_type message = MT_GET_VIDEO_INFO"
    "\<And>srv. 0 < read_ret srv \<Longrightarrow> handle_message srv message st =
       (case video_get_info st (0, 0, 0, 0, 0) of
          Inl e \<Rightarrow> Inl e
        | Inr (a, b, c, d, e) \<Rightarrow>
            write_reply srv [MT_GET_VIDEO_INFO_REPLY, a, c, b, e, d] st)"
  | "message_type message = MT_TOUCH_DOWN"
    "\<And>srv. 0 < read_ret srv \<Longrightarrow> handle_message srv message st =
       (case input_touch_down (touch_down_id message) (touch_down_x message)
               (touch_down_y message) st of
          Inl e \<Rightarrow> Inl e
        | Inr (touch_id, st') \<Rightarrow> write_reply srv [MT_TOUCH_DOWN_REPLY, touch_id] st')"
  | "message_type message = MT_TOUCH_MOVE"
    "\<And>srv. 0 < read_ret srv \<Longrightarrow> handle_message srv message st =
       input_touch_move (touch_move_id message) (touch_move_touch_id message)
         (touch_move_x message) (touch_move_y message) st"
  | "message_type message = MT_TOUCH_UP"
    "\<And>srv. 0 < read_ret srv \<Longrightarrow> handle_message srv message st =
       input_touch_up (touch_move_id message) (touch_move_touch_id message) st"
  | "\<not> has_reply (message_type message)" "\<not> names_device (message_type message)"
    "\<And>srv. 0 < read_ret srv \<Longrightarrow> handle_message srv message st = Inl Invalid_message_type"
proof -
  show ?thesis
  proof (cases "has_reply (message_type message) \<or> names_device (message_type message)")
    case True
    then consider
        "message_type message = MT_CREATE_KEYBOARD" | "message_type message = MT_CREATE_MOUSE"
      | "message_type message = MT_CREATE_TOUCH" | "message_type message = MT_KEY_PRESS"
      | "message_type message = MT_KEY_RELEASE" | "message_type message = MT_BUTTON_PRESS"
      | "message_type message = MT_BUTTON_RELEASE" | "message_type message = MT_MOUSE_MOVE"
      | "message_type message = MT_MOUSE_SCROLL" | "message_type message = MT_REMOVE_DEVICE"
      | "message_type message = MT_ENABLE_SECOND_MONITOR"
      | "message_type message = MT_GET_VIDEO_INFO" | "message_type message = MT_TOUCH_DOWN"
      | "message_type message = MT_TOUCH_MOVE" | "message_type message = MT_TOUCH_UP"
      unfolding has_reply_def names_device_def by blast
    then show ?thesis
    proof cases
      case 1
      then show ?thesis
        by (intro that(1)) (simp_all add: handle_message_def MessageType_defs)
    next
      case 2
      then show ?thesis
        by (intro that(2)) (simp_all add: handle_message_def MessageType_defs)
    next
      case 3
      then show ?thesis
        by (intro that(3)) (simp_all add: handle_message_def MessageType_defs)
    next
      case 4
      then show ?thesis
        by (intro that(4)) (simp_all add: handle_message_def MessageType_defs)
    next
      case 5
      then show ?thesis
        by (intro that(5)) (simp_all add: handle_message_def MessageType_defs)
    next
      case 6
      then show ?thesis
        by (intro that(6)) (simp_all add: handle_message_def MessageType_defs)
    next
      case 7
      then show ?thesis
        by (intro that(7)) (simp_all add: handle_message_def MessageType_defs)
    next
      case 8
      then show ?thesis
        by (intro that(8)) (simp_all add: handle_message_def MessageType_defs)
    next
      case 9
      then show ?thesis
        by (intro that(9)) (simp_all add: handle_message_def MessageType_defs)
    next
      case 10
      then show ?thesis
        by (intro that(10)) (simp_all add: handle_message_def MessageType_defs)
    next
      case 11
      then show ?thesis
        by (intro that(11)) (simp_all add: handle_message_def MessageType_defs Message_fields_def cong: sum.case_cong)
    next
      case 12
      then show ?thesis
        by (intro that(12)) (simp_all add: handle_message_def MessageType_defs GetVideoInfoReply_fields_def split: sum.splits prod.splits)
    next
      case 13
      then show ?thesis
        by (intro that(13)) (simp_all add: handle_message_def MessageType_defs)
    next
      case 14
      then show ?thesis
        by (intro that(14)) (simp_all add: handle_message_def MessageType_defs)
    next
      case 15
      then show ?thesis
        by (intro that(15)) (simp_all add: handle_message_def MessageType_defs)
    qed
  next
    case False
    then have "\<not> has_reply (message_type message)" and "\<not> names_device (message_type message)"
      by simp_all
    moreover from this have "\<And>srv. 0 < read_ret srv \<Longrightarrow>
        handle_message srv message st = Inl Invalid_message_type"
      by (simp add: handle_message_def has_reply_def names_device_def)
    ultimately show ?thesis by (rule that(16))
  qed
qed

lemma get_device_aborts:
  "get_device i st = Inl e \<Longrightarrow> e = Assert_device"
  by (auto simp: get_device_def split: option.splits)

lemma get_typed_aborts:
  "get_keyboard i st = Inl e \<Longrightarrow> e = Assert_device \<or> e = Assert_device_type"
  "get_mouse i st = Inl e \<Longrightarrow> e = Assert_device \<or> e = Assert_device_type"
  "get_touch i st = Inl e \<Longrightarrow> e = Assert_device \<or> e = Assert_device_type"
  by (auto simp: get_keyboard_def get_mouse_def get_touch_def
      split: sum.splits prod.splits if_splits dest: get_device_aborts)

lemma input_ops_aborts:
  "input_key_press a key st = Inl e \<Longrightarrow> e \<noteq> Assert_read \<and> e \<noteq> Assert_write"
  "input_key_release a key st = Inl e \<Longrightarrow> e \<noteq> Assert_read \<and> e \<noteq> Assert_write"
  "input_button_press a key st = Inl e \<Longrightarrow> e \<noteq> Assert_read \<and> e \<noteq> Assert_write"
  "input_button_release a key st = Inl e \<Longrightarrow> e \<noteq> Assert_read \<and> e \<noteq> Assert_write"
  "input_mouse_move a x y st = Inl e \<Longrightarrow> e \<noteq> Assert_read \<and> e \<noteq> Assert_write"
  "input_mouse_scroll a x y st = Inl e \<Longrightarrow> e \<noteq> Assert_read \<and> e \<noteq> Assert_write"
  "input_touch_down a x y st = Inl e \<Longrightarrow> e \<noteq> Assert_read \<and> e \<noteq> Assert_write"
  "input_touch_up a t st = Inl e \<Longrightarrow> e \<noteq> Assert_read \<and> e \<noteq> Assert_write"
  "input_touch_move a t x y st = Inl e \<Longrightarrow> e \<noteq> Assert_read \<and> e \<noteq> Assert_write"
  "input_remove_device a st = Inl e \<Longrightarrow> e \<noteq> Assert_read \<and> e \<noteq> Assert_write"
  by (auto simp: input_key_press_def input_key_release_def input_button_press_def
        input_button_release_def input_mouse_move_def input_mouse_scroll_def
        input_touch_down_def input_touch_up_def input_touch_move_def input_remove_device_def
        Let_def
      split: sum.splits option.splits prod.splits
      dest: get_typed_aborts get_device_aborts)

lemma input_new_aborts:
  "input_new_keyboard dev st = Inl e \<Longrightarrow> e \<noteq> Assert_read \<and> e \<noteq> Assert_write"
  "input_new_mouse dev st = Inl e \<Longrightarrow> e \<noteq> Assert_read \<and> e \<noteq> Assert_write"
  "input_new_touch dev st = Inl e \<Longrightarrow> e \<noteq> Assert_read \<and> e \<noteq> Assert_write"
  by (auto simp: input_new_keyboard_def input_new_mouse_def input_new_touch_def input_new_def server_new_input_device_def
        pre_init_def Let_def split: option.splits sum.splits)

lemma video_aborts:
  "video_connect_second_monitor c st = Inl e \<Longrightarrow> e \<noteq> Assert_read \<and> e \<noteq> Assert_write"
  "video_get_info st p = Inl e \<Longrightarrow> e \<noteq> Assert_read \<and> e \<noteq> Assert_write"
  by (auto simp: video_connect_second_monitor_def video_get_info_def Let_def
      split: option.splits prod.splits)

lemma handle_message_read_ok:
  assumes "0 < read_ret srv"
  shows "handle_message srv message st \<noteq> Inl Assert_read"
  using assms
  by (cases rule: handle_message_cases [of message st])
     (auto simp: write_reply_def split: sum.splits prod.splits if_splits
           dest: input_ops_aborts input_new_aborts video_aborts)

lemma handle_message_Assert_read:
  "handle_message srv message st = Inl Assert_read \<longleftrightarrow> read_ret srv \<le> 0"
  using handle_message_read_ok [of srv message st]
  by (auto simp: handle_message_def)

lemma handle_message_Assert_write:
  assumes "0 < read_ret srv"
  shows "handle_message srv message st = Inl Assert_write \<longleftrightarrow>
     write_ret srv \<le> 0 \<and> has_reply (message_type message) \<and>
     (\<exists>st'. handle_message (srv\<lparr>write_ret := 1\<rparr>) message st = Inr st')"
proof -
  have 1: "0 < read_ret (srv\<lparr>write_ret := 1\<rparr>)" using assms by simp
  show ?thesis
    using assms 1
    by (cases rule: handle_message_cases [of message st])
       (auto simp: write_reply_def has_reply_def names_device_def MessageType_defs
           split: sum.splits prod.splits if_splits
           dest: input_ops_aborts input_new_aborts video_aborts)
qed

text \<open>
  Claim C3, as amended. \<open>handle_message\<close> fails the assertion on \<open>read\<close>
  exactly when \<open>read\<close> returns 0 or less (end of file or an error), and fails the
  assertion on \<open>write\<close> exactly when it reaches the \<open>write\<close> of a reply (the
  request has a reply and the operation itself does not fail) and \<open>write\<close> returns
  0 or less. Both end the process. A read or write that transfers fewer bytes than the
  size of the message, but at least one, passes the assertion.

  The counterexample: \<open>read\<close> returns 4 of the 20 bytes of a message and
  \<open>write\<close> 1 of the 24 bytes of the reply, and the GetVideoInfo request is handled
  to its normal end.
\<close>

theorem framing_fatal_when_not_positive:
  "(handle_message srv message st = Inl Assert_read \<longleftrightarrow> read_ret srv \<le> 0) \<and>
   (handle_message srv message st = Inl Assert_write \<longleftrightarrow>
      0 < read_ret srv \<and> write_ret srv \<le> 0 \<and> has_reply (message_type message) \<and>
      (\<exists>st'. handle_message (srv\<lparr>write_ret := 1\<rparr>) message st = Inr st'))"
proof (cases "0 < read_ret srv")
  case True
  with handle_message_Assert_write [OF True, of message st]
    handle_message_Assert_read [of srv message st]
  show ?thesis by simp
next
  case False
  then have "handle_message srv message st = Inl Assert_read"
    by (simp add: handle_message_def)
  with False show ?thesis by simp
qed

theorem framing_fatal_when_not_positive_witness:
  "handle_message (srv0\<lparr>read_ret := 0\<rparr>) (Msg MT_GET_VIDEO_INFO 0 0 0 0) st0 = Inl Assert_read \<and>
   handle_message (srv0\<lparr>read_ret := - 1\<rparr>) (Msg MT_GET_VIDEO_INFO 0 0 0 0) st0 = Inl Assert_read \<and>
   handle_message (srv0\<lparr>write_ret := 0\<rparr>) (Msg MT_GET_VIDEO_INFO 0 0 0 0) st0 = Inl Assert_write"
proof -
  have "\<exists>st'. handle_message (srv0\<lparr>write_ret := 0, write_ret := 1\<rparr>)
      (Msg MT_GET_VIDEO_INFO 0 0 0 0) st0 = Inr st'"
    using get_video_info_reachable [OF reachable_st0,
        of "srv0\<lparr>write_ret := 1\<rparr>" "Msg MT_GET_VIDEO_INFO 0 0 0 0"]
    by (simp add: srv0_def Msg_def message_type_def)
  then show ?thesis
    using framing_fatal_when_not_positive [of "srv0\<lparr>read_ret := 0\<rparr>"
        "Msg MT_GET_VIDEO_INFO 0 0 0 0" st0]
      framing_fatal_when_not_positive [of "srv0\<lparr>read_ret := - 1\<rparr>"
        "Msg MT_GET_VIDEO_INFO 0 0 0 0" st0]
      framing_fatal_when_not_positive [of "srv0\<lparr>write_ret := 0\<rparr>"
        "Msg MT_GET_VIDEO_INFO 0 0 0 0" st0]
    by (simp add: srv0_def Msg_def message_type_def has_reply_def MessageType_defs)
qed

theorem short_read_and_write_counterexample:
  "read_ret (srv0\<lparr>read_ret := 4, write_ret := 1\<rparr>) < sizeof_Message \<and>
   write_ret (srv0\<lparr>read_ret := 4, write_ret := 1\<rparr>) < sizeof_GetVideoInfoReply \<and>
   handle_message (srv0\<lparr>read_ret := 4, write_ret := 1\<rparr>) (Msg MT_GET_VIDEO_INFO 0 0 0 0) st0 =
     Inr (st0\<lparr>written := [[MT_GET_VIDEO_INFO_REPLY, 101, 201, 200, 301, 302]]\<rparr>)"
  using get_video_info_reachable [OF reachable_st0,
      of "srv0\<lparr>read_ret := 4, write_ret := 1\<rparr>" "Msg MT_GET_VIDEO_INFO 0 0 0 0"]
  by (simp add: srv0_def Msg_def message_type_def GetVideoInfoReply_fields_def ids0_def
        mode1_def mode2_def st0_def screen_init_def initial_state_def
        sizeof_Message_def sizeof_GetVideoInfoReply_def)

lemma distinct_without_nth:
  assumes "distinct (map f xs)" and "k < length xs"
  shows "f (xs ! k) \<notin> f ` set (take k xs @ drop (Suc k) xs)"
proof -
  have "xs = take k xs @ xs ! k # drop (Suc k) xs"
    using assms(2) by (rule id_take_nth_drop)
  then have "distinct (map f (take k xs @ xs ! k # drop (Suc k) xs))"
    using assms(1) by simp
  then show ?thesis by auto
qed

lemma get_typed_absent:
  assumes "get_device i st = Inl Assert_device"
  shows "get_keyboard i st = Inl Assert_device" and "get_mouse i st = Inl Assert_device"
    and "get_touch i st = Inl Assert_device"
  using assms by (simp_all add: get_keyboard_def get_mouse_def get_touch_def)

lemma lookups_absent:
  assumes "get_device i st = Inl Assert_device"
  shows "input_key_press i key st = Inl Assert_device"
    and "input_key_release i key st = Inl Assert_device"
    and "input_button_press i key st = Inl Assert_device"
    and "input_button_release i key st = Inl Assert_device"
    and "input_mouse_move i x y st = Inl Assert_device"
    and "input_mouse_scroll i x y st = Inl Assert_device"
    and "input_touch_down i x y st = Inl Assert_device"
    and "input_touch_up i t st = Inl Assert_device"
    and "input_touch_move i t x y st = Inl Assert_device"
    and "input_remove_device i st = Inl Assert_device"
  using assms get_typed_absent [OF assms]
  by (simp_all add: input_key_press_def input_key_release_def input_button_press_def
        input_button_release_def input_mouse_move_def input_mouse_scroll_def
        input_touch_down_def input_touch_up_def input_touch_move_def input_remove_device_def)

lemma handle_message_absent:
  assumes "get_device (word1 message) st = Inl Assert_device" and "0 < read_ret srv"
    and "names_device (message_type message)"
  shows "handle_message srv message st = Inl Assert_device"
  using assms(2,3) lookups_absent [OF assms(1)]
  by (cases rule: handle_message_cases [of message st])
     (simp_all add: names_device_def has_reply_def MessageType_defs Message_defs)

text \<open>
  Claim C2, as amended. Let the devices have distinct ids and let \<open>RemoveDevice\<close>
  name one of them. The message is handled by a request to the server to delete the device.
  Once the server has then called \<open>un_init\<close> for that device, every message that
  names the id (any key, button, mouse or touch message, or another RemoveDevice) fails
  the assertion of \<open>get_device\<close>, which ends the process: the lookup never succeeds,
  and there is no error that the process survives.

  The counterexample: after RemoveDevice(7) and \<open>un_init\<close>, MouseMove(7, 1, 1) and
  a second RemoveDevice(7) do not return an error, they abort.
\<close>

theorem lookup_after_removal_aborts:
  assumes "distinct (map device (devices st))"
    and "get_device (remove_device_id rm) st = Inr (k, d)"
    and "message_type rm = MT_REMOVE_DEVICE" and "0 < read_ret srv"
    and "0 < read_ret srv'" and "names_device (message_type message)"
    and "word1 message = remove_device_id rm"
  shows "\<exists>st1. handle_message srv rm st = Inr st1 \<and>
     calls st1 = calls st @ [DeleteInputDeviceRequest (remove_device_id rm)] \<and>
     get_device (remove_device_id rm) (un_init k st1) = Inl Assert_device \<and>
     handle_message srv' message (un_init k st1) = Inl Assert_device"
proof -
  let ?i = "remove_device_id rm"
  let ?st1 = "call (DeleteInputDeviceRequest ?i) st"
  from get_device_Inr [OF assms(2)]
  have k: "k < length (devices st)" and d: "devices st ! k = d" "device d = ?i"
    by simp_all
  have 1: "handle_message srv rm st = Inr ?st1"
    using assms(2,3,4) d by (simp add: handle_message_def MessageType_defs input_remove_device_def)
  have "?i \<notin> device ` set (devices (un_init k ?st1))"
    using distinct_without_nth [OF assms(1) k] k d by (simp add: un_init_def)
  then have 2: "get_device ?i (un_init k ?st1) = Inl Assert_device"
    by (rule get_device_absent)
  then have "get_device (word1 message) (un_init k ?st1) = Inl Assert_device"
    using assms(7) by simp
  from handle_message_absent [OF this assms(5,6)] 1 2 show ?thesis
    by simp
qed

lemma get_device_st_mouse:
  "get_device 7 st_mouse =
     Inr (0, \<lparr>type = TyMouse, device = 7, mask = Some [Unset, Unset, Unset, Unset]\<rparr>)"
  by (simp add: get_device_def st_mouse_def)

theorem lookup_after_removal_aborts_witness:
  "distinct (map device (devices st_mouse)) \<and>
   (\<exists>st1. handle_message srv0 (Msg MT_REMOVE_DEVICE 7 0 0 0) st_mouse = Inr st1 \<and>
      calls st1 = [NewInputDeviceRequest ''mouse'' 1, DeleteInputDeviceRequest 7] \<and>
      get_device 7 (un_init 0 st1) = Inl Assert_device \<and>
      handle_message srv0 (Msg MT_MOUSE_MOVE 7 1 1 0) (un_init 0 st1) = Inl Assert_device)"
  using lookup_after_removal_aborts [of st_mouse "Msg MT_REMOVE_DEVICE 7 0 0 0" 0
      "\<lparr>type = TyMouse, device = 7, mask = Some [Unset, Unset, Unset, Unset]\<rparr>"
      srv0 srv0 "Msg MT_MOUSE_MOVE 7 1 1 0"] get_device_st_mouse
  by (simp add: Msg_def Message_defs srv0_def names_device_def MessageType_defs st_mouse_def)

theorem lookup_after_removal_counterexample:
  "handle_message srv0 (Msg MT_REMOVE_DEVICE 7 0 0 0) st_mouse =
     Inr (call (DeleteInputDeviceRequest 7) st_mouse) \<and>
   devices (un_init 0 (call (DeleteInputDeviceRequest 7) st_mouse)) = [] \<and>
   get_device 7 (un_init 0 (call (DeleteInputDeviceRequest 7) st_mouse)) = Inl Assert_device \<and>
   handle_message srv0 (Msg MT_MOUSE_MOVE 7 1 1 0)
     (un_init 0 (call (DeleteInputDeviceRequest 7) st_mouse)) = Inl Assert_device \<and>
   handle_message srv0 (Msg MT_REMOVE_DEVICE 7 0 0 0)
     (un_init 0 (call (DeleteInputDeviceRequest 7) st_mouse)) = Inl Assert_device"
  by (simp add: handle_message_def srv0_def Msg_def Message_defs MessageType_defs
        input_remove_device_def input_mouse_move_def get_mouse_def get_device_def
        st_mouse_def un_init_def call_def)

section \<open>Touch contact ids\<close>

lemma touch_downs_ids:
  "touch_downs args st = Inr (ids, st') \<Longrightarrow>
     ids = map (\<lambda>n. TOUCH_ID st + of_nat n) [0..<length args] \<and>
     TOUCH_ID st' = TOUCH_ID st + of_nat (length args)"
proof (induction args arbitrary: st ids)
  case Nil
  then show ?case by simp
next
  case (Cons a args)
  obtain touch x y where a: "a = (touch, x, y)" by (cases a)
  from Cons.prems a obtain t st1 ts where
    1: "input_touch_down touch x y st = Inr (t, st1)"
    and 2: "touch_downs args st1 = Inr (ts, st')" and ids: "ids = t # ts"
    by (auto split: sum.splits prod.splits)
  from input_touch_down_frame [OF 1] have t: "t = TOUCH_ID st" "TOUCH_ID st1 = TOUCH_ID st + 1"
    by simp_all
  from Cons.IH [OF 2] t ids show ?case
    by (simp add: upt_rec [of 0 "Suc (length args)"] map_Suc_upt [symmetric] add.assoc
             del: upt_Suc)
qed

lemma word_of_nat_strict_mono:
  fixes i j :: nat
  assumes "i < j" and "j < 2 ^ 32"
  shows "(of_nat i :: u32) < of_nat j"
proof -
  have "unat (of_nat i :: u32) = i" and "unat (of_nat j :: u32) = j"
    using assms by (simp_all add: unat_of_nat)
  with assms(1) show ?thesis by (simp add: word_less_nat_alt)
qed

lemma sorted_touch_ids:
  assumes "n < 2 ^ 32"
  shows "sorted_wrt (<) (map (of_nat :: nat \<Rightarrow> u32) [1..<Suc n])"
proof -
  have "sorted_wrt (\<lambda>i j. (of_nat i :: u32) < of_nat j) [1..<Suc n]"
  proof (rule sorted_wrt_mono_rel [of _ "(<)"])
    fix i j assume "i \<in> set [1..<Suc n]" "j \<in> set [1..<Suc n]" "i < j"
    with assms have "i < j" and "j < 2 ^ 32" by auto
    then show "(of_nat i :: u32) < of_nat j"
      by (rule word_of_nat_strict_mono)
  qed (rule sorted_wrt_upt)
  then show ?thesis by (simp add: sorted_wrt_map)
qed

lemma handle_message_TOUCH_ID:
  assumes "handle_message srv message st = Inr st'"
  shows "TOUCH_ID st' =
    (if message_type message = MT_TOUCH_DOWN then TOUCH_ID st + 1 else TOUCH_ID st)"
proof (cases "0 < read_ret srv")
  case True
  then show ?thesis
    using assms
    by (cases rule: handle_message_cases [of message st])
       (auto simp: write_reply_def MessageType_defs input_new_keyboard_def input_new_mouse_def
          input_new_touch_def
          split: sum.splits prod.splits if_splits
          dest!: input_new_frame input_ops_frame input_touch_down_frame
            video_connect_second_monitor_devices)
next
  case False
  with assms show ?thesis by (simp add: handle_message_def)
qed

text \<open>
  Claim C4, as amended. \<open>TOUCH_ID\<close> is one 32-bit counter of the whole process.
  It starts at 1; \<open>screen_init\<close>, \<open>un_init\<close> and every handled message other
  than TouchDown leave it alone, and a handled TouchDown adds 1 to it, whichever touch
  device the message names. So successive calls of \<open>input_touch_down\<close>, on any mix
  of touch devices, return 1, 2, 3, ... modulo \<open>2 ^ 32\<close>: the ids are exactly
  1, 2, ..., n and strictly increasing as long as there are fewer than \<open>2 ^ 32\<close>
  calls.

  The counterexample is the \<open>2 ^ 32\<close>-th call, which returns 0 after 4294967295: the
  counter wraps, and the ids are not strictly increasing for the lifetime of the process.
\<close>

theorem touch_ids_count_up:
  "TOUCH_ID initial_state = 1 \<and>
   TOUCH_ID (screen_init ids st) = TOUCH_ID st \<and> TOUCH_ID (un_init k st) = TOUCH_ID st \<and>
   (\<forall>srv message st'. handle_message srv message st = Inr st' \<longrightarrow>
      TOUCH_ID st' =
        (if message_type message = MT_TOUCH_DOWN then TOUCH_ID st + 1 else TOUCH_ID st)) \<and>
   (\<forall>touch_ids st'. touch_downs args st = Inr (touch_ids, st') \<and> TOUCH_ID st = 1 \<longrightarrow>
      touch_ids = map of_nat [1..<Suc (length args)] \<and>
      (length args < 2 ^ 32 \<longrightarrow>
         map unat touch_ids = [1..<Suc (length args)] \<and> sorted_wrt (<) touch_ids))"
proof -
  have "touch_ids = map of_nat [1..<Suc (length args)] \<and>
      (length args < 2 ^ 32 \<longrightarrow>
         map unat touch_ids = [1..<Suc (length args)] \<and> sorted_wrt (<) touch_ids)"
    if run: "touch_downs args st = Inr (touch_ids, st')" and one: "TOUCH_ID st = 1"
    for touch_ids st'
  proof -
    from touch_downs_ids [OF run] one
    have "touch_ids = map (\<lambda>n. 1 + of_nat n) [0..<length args]" by simp
    also have "\<dots> = map (\<lambda>n. of_nat (Suc n)) [0..<length args]" by simp
    also have "\<dots> = map of_nat (map Suc [0..<length args])" by (simp add: comp_def)
    also have "map Suc [0..<length args] = [1..<Suc (length args)]"
      by (simp add: map_Suc_upt)
    finally have ids: "touch_ids = map of_nat [1..<Suc (length args)]" .
    have "map unat touch_ids = [1..<Suc (length args)]" if "length args < 2 ^ 32"
    proof -
      have "map (\<lambda>n. unat (of_nat n :: u32)) [1..<Suc (length args)] =
          map (\<lambda>n. n) [1..<Suc (length args)]"
        using that by (intro map_cong refl) (simp add: unat_of_nat del: upt_Suc)
      then show ?thesis by (simp add: ids comp_def)
    qed
    with ids sorted_touch_ids [of "length args"] show ?thesis by simp
  qed
  then show ?thesis
    using handle_message_TOUCH_ID [of _ _ st]
    by (simp add: initial_state_def screen_init_def un_init_def)
qed

lemma create_touch_st_touch:
  "handle_message (srv0\<lparr>new_device := Some 11\<rparr>) (Msg MT_CREATE_TOUCH 0 0 0 0) st_touch =
     Inr st_touch2"
  by (simp add: handle_message_def srv0_def Msg_def Message_defs MessageType_defs st0_def
        st_mouse_def st_touch_def st_touch2_def screen_init_def initial_state_def
        input_new_touch_def input_new_def server_new_input_device_def pre_init_def device_control_def init_touch_def
        init_pointer_def valuator_mask_new_4 write_reply_def)

lemma reachable_st_touch2: "reachable ids0 st_touch2"
  using reachable_st_touch create_touch_st_touch by (rule reachable_message)

lemma get_device_loop_types:
  "map (\<lambda>d. (device d, type d)) ds = map (\<lambda>d. (device d, type d)) ds' \<Longrightarrow>
     map_option (\<lambda>(k, d). (k, type d)) (get_device_loop i j ds) =
     map_option (\<lambda>(k, d). (k, type d)) (get_device_loop i j ds')"
proof (induction ds arbitrary: ds' j)
  case Nil
  then show ?case by simp
next
  case (Cons a ds)
  then obtain b bs where "ds' = b # bs" by (cases ds') auto
  with Cons show ?case by auto
qed

lemma get_touch_iff:
  "(\<exists>k d. get_touch i st = Inr (k, d)) \<longleftrightarrow>
     (\<exists>k. map_option (\<lambda>(k, d). (k, type d)) (get_device_loop i 0 (devices st)) =
        Some (k, TyTouch))"
  by (auto simp: get_touch_def get_device_def split: option.splits)

lemma input_touch_down_succeeds:
  assumes "list_all mask_allocated (devices st)" and "get_touch touch st = Inr (k, d)"
  shows "\<exists>st'. input_touch_down touch x y st = Inr (TOUCH_ID st, st') \<and>
     map (\<lambda>d. (device d, type d)) (devices st') = map (\<lambda>d. (device d, type d)) (devices st)"
proof -
  from get_touch_Inr [OF assms(2)]
  have k: "k < length (devices st)" and d: "devices st ! k = d" "type d = TyTouch"
    by simp_all
  with mask_allocated_nth [OF assms(1), of k] obtain m where "mask d = Some m"
    by auto
  moreover have "map (\<lambda>d. (device d, type d)) ((devices st)[k := d\<lparr>mask := M\<rparr>]) =
      map (\<lambda>d. (device d, type d)) (devices st)" for M
    using d(1) by (simp add: map_update list_update_same_conv k)
  ultimately show ?thesis
    using assms(2) by (simp add: input_touch_down_def Let_def)
qed

lemma touch_downs_succeeds:
  assumes "list_all mask_allocated (devices st)"
    and "\<forall>a\<in>set args. \<exists>k d. get_touch (fst a) st = Inr (k, d)"
  shows "\<exists>touch_ids st'. touch_downs args st = Inr (touch_ids, st')"
  using assms
proof (induction args arbitrary: st)
  case Nil
  show ?case by simp
next
  case (Cons a args)
  obtain touch x y where a: "a = (touch, x, y)" by (cases a)
  from Cons.prems(2) a obtain k d where g: "get_touch touch st = Inr (k, d)"
    by auto
  from input_touch_down_succeeds [OF Cons.prems(1) g, of x y] obtain st1 where
    1: "input_touch_down touch x y st = Inr (TOUCH_ID st, st1)"
    and same: "map (\<lambda>d. (device d, type d)) (devices st1) =
      map (\<lambda>d. (device d, type d)) (devices st)"
    by blast
  have m: "list_all mask_allocated (devices st1)"
    using Cons.prems(1) 1 by (rule input_ops_masks(10))
  have "\<forall>a\<in>set args. \<exists>k d. get_touch (fst a) st1 = Inr (k, d)"
    using Cons.prems(2) by (simp add: get_touch_iff get_device_loop_types [OF same])
  from Cons.IH [OF m this] 1 a show ?case
    by auto
qed

theorem touch_ids_count_up_witness:
  "TOUCH_ID st_touch2 = 1 \<and>
   (\<exists>st'. touch_downs [(9, 3, 4), (11, 5, 6), (9, 0, 0)] st_touch2 = Inr ([1, 2, 3], st'))"
proof -
  have "list_all mask_allocated (devices st_touch2)"
    using reachable_st_touch2 by (rule reachable_masks)
  moreover have "\<forall>a\<in>set [(9, 3, 4), (11, 5, 6), (9 :: u32, 0 :: u32, 0 :: u32)].
      \<exists>k d. get_touch (fst a) st_touch2 = Inr (k, d)"
    by (simp add: get_touch_def get_device_def st_touch2_def)
  ultimately obtain touch_ids st' where
    run: "touch_downs [(9, 3, 4), (11, 5, 6), (9, 0, 0)] st_touch2 = Inr (touch_ids, st')"
    using touch_downs_succeeds by blast
  have one: "TOUCH_ID st_touch2 = 1"
    by (simp add: st_touch2_def st_touch_def st_mouse_def st0_def screen_init_def
          initial_state_def)
  from touch_ids_count_up [of ids0 st_touch2 0 "[(9, 3, 4), (11, 5, 6), (9, 0, 0)]"] run one
  have "touch_ids = [1, 2, 3]" by simp
  with run one show ?thesis by blast
qed

theorem touch_ids_wrap_counterexample:
  "case touch_downs (replicate 4294967296 (9, 0, 0)) st_touch of
     Inl e \<Rightarrow> False
   | Inr (touch_ids, st') \<Rightarrow>
       touch_ids ! 4294967294 = 4294967295 \<and> touch_ids ! 4294967295 = 0 \<and>
       \<not> sorted_wrt (<) touch_ids"
proof -
  have "list_all mask_allocated (devices st_touch)"
    using reachable_st_touch by (rule reachable_masks)
  moreover have "\<forall>a\<in>set (replicate 4294967296 (9 :: u32, 0 :: u32, 0 :: u32)).
      \<exists>k d. get_touch (fst a) st_touch = Inr (k, d)"
    by (simp add: get_touch_def get_device_def st_touch_def)
  ultimately obtain touch_ids st' where
    run: "touch_downs (replicate 4294967296 (9, 0, 0)) st_touch = Inr (touch_ids, st')"
    using touch_downs_succeeds by blast
  have one: "TOUCH_ID st_touch = 1"
    by (simp add: st_touch_def st_mouse_def st0_def screen_init_def initial_state_def)
  from touch_downs_ids [OF run] one
  have ids: "touch_ids = map (\<lambda>n. 1 + of_nat n) [0..<4294967296]" by simp
  have a: "touch_ids ! 4294967294 = 4294967295" and b: "touch_ids ! 4294967295 = 0"
    by (simp_all add: ids)
  have "length touch_ids = 4294967296" by (simp add: ids)
  then have "\<not> sorted_wrt (<) touch_ids"
    using a b sorted_wrt_nth_less [of "(<)" touch_ids 4294967294 4294967295] by auto
  with a b run show ?thesis by simp
qed

end
